theory Spec2Isabelle
  imports Main "HOL-Library.Sublist"
begin

section \<open>The admin script of the Resume Improvement Tool (admin.py)\<close>

text \<open>
  The script is sequential glue around external collaborators: shell commands, the terminal,
  two HTTP endpoints, the file system and the clock. The model keeps every interaction with
  them in a trace of events, in the order the script performs them. What a collaborator
  answers is not decided by the script, so it is read from an environment: each answer is a
  function of the trace so far, which lets an environment describe any history-dependent
  behaviour of the outside world while the model stays a deterministic, executable function.

  Text is modelled as \<open>string\<close>, a list of 8-bit characters: the bytes written to the
  terminal. The four status glyphs of the script, which lie outside ASCII, are the byte
  sequences of their UTF-8 encoding.
\<close>

subsection \<open>Events, exceptions and results\<close>

datatype event =
    Print string                \<comment> \<open>\<open>print(s)\<close>: the text \<open>s\<close> and a newline on standard output\<close>
  | Input string                \<comment> \<open>\<open>input(prompt)\<close>: the prompt is written, one line is read\<close>
  | Run string string bool      \<comment> \<open>\<open>subprocess.run\<close>: command, working directory, \<open>check\<close>\<close>
  | Get string                  \<comment> \<open>\<open>requests.get(url, timeout=10)\<close>\<close>
  | Now                         \<comment> \<open>\<open>datetime.now()\<close>\<close>
  | MakeDirs string             \<comment> \<open>\<open>os.makedirs(path, exist_ok=True)\<close>\<close>
  | IsFile string               \<comment> \<open>\<open>os.path.isfile(path)\<close>\<close>
  | Copy2 string string         \<comment> \<open>\<open>shutil.copy2(src, dst)\<close>\<close>
  | RmTree string               \<comment> \<open>\<open>shutil.rmtree(path)\<close>\<close>

type_synonym trace = "event list"

text \<open>
  What can leave a function other than by \<open>return\<close>: \<open>SystemExit n\<close>, raised by
  \<open>sys.exit(n)\<close> and not an instance of \<open>Exception\<close>, and \<open>Exception m\<close>, an instance
  of a subclass of \<open>Exception\<close> whose \<open>str()\<close> is \<open>m\<close>.
\<close>

datatype exn = SystemExit int | Exception string

datatype 'a result = Return 'a | Raise exn

text \<open>What the outside world answers.\<close>

datatype proc_outcome =
    Exited string string int    \<comment> \<open>the command ran: standard output, standard error, exit code\<close>
  | SpawnFailed string          \<comment> \<open>\<open>subprocess.run\<close> itself raised (an \<open>OSError\<close>, say)\<close>

datatype http_outcome =
    Response int "string option"
      \<comment> \<open>status code; \<open>json.dumps(response.json(), indent=2)\<close>, \<open>None\<close> when that raises\<close>
  | GetFailed string            \<comment> \<open>importing \<open>requests\<close> or the request raised\<close>

record env =
  project_root :: string
  spawn :: "trace \<Rightarrow> string \<Rightarrow> string \<Rightarrow> proc_outcome"
  read_line :: "trace \<Rightarrow> string option"        \<comment> \<open>\<open>None\<close>: end of input\<close>
  requests_get :: "trace \<Rightarrow> string \<Rightarrow> http_outcome"
  strftime_now :: "trace \<Rightarrow> string"             \<comment> \<open>the clock, formatted \<open>%Y%m%d_%H%M%S\<close>\<close>
  os_makedirs :: "trace \<Rightarrow> string \<Rightarrow> string option"   \<comment> \<open>\<open>Some m\<close>: raised, with text \<open>m\<close>\<close>
  os_path_isfile :: "trace \<Rightarrow> string \<Rightarrow> bool"
  shutil_copy2 :: "trace \<Rightarrow> string \<Rightarrow> string \<Rightarrow> string option"
  shutil_rmtree :: "trace \<Rightarrow> string \<Rightarrow> string option"
  unicode_lower :: "string \<Rightarrow> string"
    \<comment> \<open>\<open>str.lower()\<close> of a text that has a character outside ASCII\<close>
  unicode_strip :: "string \<Rightarrow> string"
    \<comment> \<open>\<open>str.strip()\<close> of a text that has a character outside ASCII\<close>

text \<open>
  The interpreter's exit status for \<open>if __name__ == "__main__": main()\<close>: 0 when
  \<open>main\<close> returns, the argument of \<open>sys.exit\<close>, and 1 after an uncaught exception.
\<close>

fun exit_code :: "'a result \<Rightarrow> int" where
  "exit_code (Return _) = 0"
| "exit_code (Raise (SystemExit n)) = n"
| "exit_code (Raise (Exception _)) = 1"

text \<open>The bytes on standard output that a trace stands for.\<close>

fun stdout_of_event :: "event \<Rightarrow> string" where
  "stdout_of_event (Print s) = s @ [CHR 0x0A]"
| "stdout_of_event (Input p) = p"
| "stdout_of_event _ = []"

definition stdout_of :: "trace \<Rightarrow> string" where
  "stdout_of t = concat (map stdout_of_event t)"

subsection \<open>Library functions on text\<close>

text \<open>
  \<open>str.lower()\<close> and \<open>str.strip()\<close>. On a text of ASCII characters Python maps
  \<open>A\<close>..\<open>Z\<close> to \<open>a\<close>..\<open>z\<close> and strips the ASCII whitespace characters. On a text
  with a character outside ASCII (a byte of 128 or more in the UTF-8 encoding) the result comes
  from Python's Unicode tables, which are no part of the source: it is read from the environment
  (\<open>unicode_lower\<close>, \<open>unicode_strip\<close>). \<open>str.split('\n')\<close> cuts at the newline byte.
\<close>

definition is_ascii :: "string \<Rightarrow> bool" where
  "is_ascii s = list_all (\<lambda>c. (of_char c :: nat) < 128) s"

definition lower_char :: "char \<Rightarrow> char" where
  "lower_char c =
     (let n = (of_char c :: nat) in if 65 \<le> n \<and> n \<le> 90 then char_of (n + 32) else c)"

definition lower :: "env \<Rightarrow> string \<Rightarrow> string" where
  "lower e s = (if is_ascii s then map lower_char s else unicode_lower e s)"

definition isspace :: "char \<Rightarrow> bool" where
  "isspace c = ((of_char c :: nat) \<in> {9, 10, 11, 12, 13, 28, 29, 30, 31, 32})"

definition strip :: "env \<Rightarrow> string \<Rightarrow> string" where
  "strip e s =
     (if is_ascii s then rev (dropWhile isspace (rev (dropWhile isspace s)))
      else unicode_strip e s)"

fun split_nl :: "string \<Rightarrow> string list" where
  "split_nl [] = [[]]"
| "split_nl (c # cs) =
     (if c = CHR 0x0A then [] # split_nl cs
      else (case split_nl cs of [] \<Rightarrow> [[c]] | l # ls \<Rightarrow> (c # l) # ls))"

text \<open>\<open>str(n)\<close> for an integer.\<close>

fun str_nat :: "nat \<Rightarrow> string" where
  "str_nat n =
     (if n < 10 then [char_of (48 + n)] else str_nat (n div 10) @ [char_of (48 + n mod 10)])"

declare str_nat.simps [simp del]

definition str_int :: "int \<Rightarrow> string" where
  "str_int i = (if i < 0 then CHR ''-'' # str_nat (nat (- i)) else str_nat (nat i))"

text \<open>\<open>os.path.dirname\<close> and \<open>os.path.join\<close> of two parts (\<open>posixpath\<close>).\<close>

definition rstrip_slash :: "string \<Rightarrow> string" where
  "rstrip_slash s = rev (dropWhile (\<lambda>c. c = CHR ''/'') (rev s))"

definition dirname :: "string \<Rightarrow> string" where
  "dirname p =
     (let head = rev (dropWhile (\<lambda>c. c \<noteq> CHR ''/'') (rev p))
      in if head \<noteq> [] \<and> \<not> list_all (\<lambda>c. c = CHR ''/'') head then rstrip_slash head else head)"

definition path_join :: "string \<Rightarrow> string \<Rightarrow> string" where
  "path_join a b =
     (if b \<noteq> [] \<and> hd b = CHR ''/'' then b
      else if a = [] \<or> last a = CHR ''/'' then a @ b
      else a @ ''/'' @ b)"

subsection \<open>Configuration constants\<close>

definition GITHUB_REMOTE :: string where "GITHUB_REMOTE = ''master''"
definition HEROKU_REMOTE :: string where "HEROKU_REMOTE = ''heroku''"
definition GITHUB_USERNAME :: string where "GITHUB_USERNAME = ''HikingHacker''"
definition REPO_NAME :: string where "REPO_NAME = ''Resume-Improvement-App''"

definition GITHUB_PAGES_URL :: string where
  "GITHUB_PAGES_URL = ''https://'' @ GITHUB_USERNAME @ ''.github.io/'' @ REPO_NAME"

definition GITHUB_REPO_URL :: string where
  "GITHUB_REPO_URL = ''git@github.com:'' @ GITHUB_USERNAME @ ''/'' @ REPO_NAME @ ''.git''"

definition HEROKU_APP_NAME :: string where
  "HEROKU_APP_NAME = ''resume-improvement-api-b20bfe5902cf''"

definition HEROKU_URL :: string where
  "HEROKU_URL = ''https://'' @ HEROKU_APP_NAME @ ''.herokuapp.com''"

definition HEROKU_API_HEALTH_URL :: string where
  "HEROKU_API_HEALTH_URL = HEROKU_URL @ ''/api/health''"

definition SERVER_DIR :: "env \<Rightarrow> string" where
  "SERVER_DIR e = path_join (project_root e) ''server''"

subsection \<open>Coloured console lines\<close>

definition esc :: "string \<Rightarrow> string" where
  "esc code = CHR 0x1B # CHR ''['' # code"

definition HEADER :: string where "HEADER = esc ''95m''"
definition BLUE :: string where "BLUE = esc ''94m''"
definition GREEN :: string where "GREEN = esc ''92m''"
definition YELLOW :: string where "YELLOW = esc ''93m''"
definition RED :: string where "RED = esc ''91m''"
definition ENDC :: string where "ENDC = esc ''0m''"
definition BOLD :: string where "BOLD = esc ''1m''"

definition header_text :: "string \<Rightarrow> string" where
  "header_text text = [CHR 0x0A] @ HEADER @ BOLD @ ''=== '' @ text @ '' ==='' @ ENDC @ [CHR 0x0A]"

definition success_text :: "string \<Rightarrow> string" where
  "success_text text = GREEN @ [CHR 0xE2, CHR 0x9C, CHR 0x93] @ '' '' @ text @ ENDC"

definition error_text :: "string \<Rightarrow> string" where
  "error_text text = RED @ [CHR 0xE2, CHR 0x9C, CHR 0x97] @ '' '' @ text @ ENDC"

definition info_text :: "string \<Rightarrow> string" where
  "info_text text = BLUE @ [CHR 0xE2, CHR 0x84, CHR 0xB9] @ '' '' @ text @ ENDC"

definition warning_text :: "string \<Rightarrow> string" where
  "warning_text text = YELLOW @ [CHR 0xE2, CHR 0x9A, CHR 0xA0] @ '' '' @ text @ ENDC"

definition print :: "string \<Rightarrow> trace \<Rightarrow> trace" where
  "print s t = t @ [Print s]"

definition print_header :: "string \<Rightarrow> trace \<Rightarrow> trace" where
  "print_header text = print (header_text text)"

definition print_success :: "string \<Rightarrow> trace \<Rightarrow> trace" where
  "print_success text = print (success_text text)"

definition print_error :: "string \<Rightarrow> trace \<Rightarrow> trace" where
  "print_error text = print (error_text text)"

definition print_info :: "string \<Rightarrow> trace \<Rightarrow> trace" where
  "print_info text = print (info_text text)"

definition print_warning :: "string \<Rightarrow> trace \<Rightarrow> trace" where
  "print_warning text = print (warning_text text)"

text \<open>\<open>input(prompt)\<close>: raises \<open>EOFError\<close> at the end of input.\<close>

definition input :: "env \<Rightarrow> string \<Rightarrow> trace \<Rightarrow> string result \<times> trace" where
  "input e prompt t =
     (case read_line e t of
        None \<Rightarrow> (Raise (Exception ''EOF when reading a line''), t @ [Input prompt])
      | Some l \<Rightarrow> (Return l, t @ [Input prompt]))"

subsection \<open>The process runner\<close>

text \<open>
  \<open>subprocess.run(command, cwd=..., check=check, shell=True, text=True, stdout=PIPE,
  stderr=PIPE)\<close>: with \<open>check\<close> a non-zero exit code raises \<open>CalledProcessError\<close>, which
  carries the standard error and the exit code.
\<close>

datatype run_result =
    CompletedProcess string string int
  | CalledProcessError string int
  | RunRaised string

definition subprocess_run :: "env \<Rightarrow> string \<Rightarrow> string \<Rightarrow> bool \<Rightarrow> trace \<Rightarrow> run_result" where
  "subprocess_run e command dir check t =
     (case spawn e t command dir of
        Exited out err code \<Rightarrow>
          if check \<and> code \<noteq> 0 then CalledProcessError err code
          else CompletedProcess out err code
      | SpawnFailed m \<Rightarrow> RunRaised m)"

text \<open>\<open>cwd or PROJECT_ROOT\<close>: an absent or empty \<open>cwd\<close> is the project root.\<close>

definition cwd_or_root :: "env \<Rightarrow> string option \<Rightarrow> string" where
  "cwd_or_root e cwd = (case cwd of None \<Rightarrow> project_root e | Some d \<Rightarrow> if d = [] then project_root e else d)"

text \<open>
  \<open>run_command(command, cwd, check)\<close>. The first component of the returned triple is
  \<open>None\<close> in the branch of the handler that follows \<open>sys.exit\<close>.
\<close>

definition run_command ::
  "env \<Rightarrow> string \<Rightarrow> string option \<Rightarrow> bool \<Rightarrow> trace \<Rightarrow> (string option \<times> string \<times> int) result \<times> trace" where
  "run_command e command cwd check t =
     (let dir = cwd_or_root e cwd; t1 = t @ [Run command dir check]
      in case subprocess_run e command dir check t of
           CompletedProcess out err code \<Rightarrow> (Return (Some (strip e out), strip e err, code), t1)
         | CalledProcessError err code \<Rightarrow>
             (let t2 = print err (print_error (''Command failed: '' @ command) t1)
              in if check then (Raise (SystemExit 1), t2) else (Return (None, err, code), t2))
         | RunRaised m \<Rightarrow> (Raise (Exception m), t1))"

text \<open>Sequencing: an exception of the first computation ends the second before it starts.\<close>

definition and_then ::
  "'a result \<times> trace \<Rightarrow> ('a \<Rightarrow> trace \<Rightarrow> 'b result \<times> trace) \<Rightarrow> 'b result \<times> trace" where
  "and_then m f = (case m of (Return x, t) \<Rightarrow> f x t | (Raise x, t) \<Rightarrow> (Raise x, t))"

text \<open>Calling \<open>.strip()\<close> on \<open>None\<close> raises \<open>AttributeError\<close>.\<close>

definition none_strip_error :: string where
  "none_strip_error =
     [CHR 0x27] @ ''NoneType'' @ [CHR 0x27] @ '' object has no attribute '' @ [CHR 0x27] @ ''strip'' @ [CHR 0x27]"

definition check_git_status :: "env \<Rightarrow> trace \<Rightarrow> bool result \<times> trace" where
  "check_git_status e t =
     and_then (run_command e ''git status --porcelain'' None True t) (\<lambda>(stdout, _, _) t1.
       case stdout of
         None \<Rightarrow> (Raise (Exception none_strip_error), t1)
       | Some s \<Rightarrow> (Return (strip e s \<noteq> []), t1))"

subsection \<open>Deploy frontend\<close>

text \<open>The part of \<open>deploy_frontend\<close> after the check for uncommitted changes.\<close>

definition deploy_frontend_build :: "env \<Rightarrow> trace \<Rightarrow> bool result \<times> trace" where
  "deploy_frontend_build e t =
     and_then (run_command e ''npm run build'' None False (print_info ''Building frontend...'' t))
       (\<lambda>(stdout, stderr, code) t1.
         if code \<noteq> 0 then (Return False, print stderr (print_error ''Frontend build failed:'' t1))
         else
           and_then
             (run_command e (''npx gh-pages -d build -r '' @ GITHUB_REPO_URL) None False
               (print_info ''Deploying to GitHub Pages...''
                 (print_success ''Frontend built successfully'' t1)))
             (\<lambda>(stdout, stderr, code) t2.
               if code \<noteq> 0
               then (Return False, print stderr (print_error ''GitHub Pages deployment failed:'' t2))
               else (Return True,
                     print_info (''Frontend URL: '' @ GITHUB_PAGES_URL)
                       (print_success ''Frontend deployed to GitHub Pages'' t2))))"

definition deploy_frontend :: "env \<Rightarrow> trace \<Rightarrow> bool result \<times> trace" where
  "deploy_frontend e t =
     and_then (check_git_status e (print_header ''Deploying Frontend to GitHub Pages'' t))
       (\<lambda>dirty t1.
         if dirty then
           and_then
             (input e ''Do you want to continue anyway? (y/n): ''
               (print_warning ''There are uncommitted changes in the repository.'' t1))
             (\<lambda>response t2.
               if lower e response \<noteq> ''y''
               then (Return False, print_info ''Deployment cancelled.'' t2)
               else deploy_frontend_build e t2)
         else deploy_frontend_build e t1)"

subsection \<open>Deploy backend\<close>

text \<open>The first block of \<open>deploy_backend\<close>: the optional stage-and-commit step.\<close>

definition deploy_backend_commit :: "env \<Rightarrow> trace \<Rightarrow> unit result \<times> trace" where
  "deploy_backend_commit e t =
     and_then (check_git_status e t) (\<lambda>dirty t1.
       if dirty then
         and_then
           (input e ''Do you want to commit them before deployment? (y/n): ''
             (print_warning ''There are uncommitted changes in the repository.'' t1))
           (\<lambda>response t2.
             if lower e response = ''y'' then
               and_then (input e ''Enter commit message: '' t2) (\<lambda>commit_msg t3.
                 and_then (run_command e ''git add .'' None True t3) (\<lambda>_ t4.
                   and_then
                     (run_command e (''git commit -m '' @ [CHR 0x22] @ commit_msg @ [CHR 0x22])
                       None True t4)
                     (\<lambda>_ t5. (Return (), print_success ''Changes committed'' t5))))
             else (Return (), t2))
       else (Return (), t1))"

text \<open>The second block: the push and its report.\<close>

definition deploy_backend_push :: "env \<Rightarrow> trace \<Rightarrow> bool result \<times> trace" where
  "deploy_backend_push e t =
     and_then
       (run_command e (''git push '' @ HEROKU_REMOTE @ '' main'') None False
         (print_info ''Deploying to Heroku...'' t))
       (\<lambda>(stdout, stderr, code) t1.
         if code \<noteq> 0 then (Return False, print stderr (print_error ''Heroku deployment failed:'' t1))
         else (Return True,
               print_info (''Backend API URL: '' @ HEROKU_URL)
                 (print_success ''Backend deployed to Heroku'' t1)))"

definition deploy_backend :: "env \<Rightarrow> trace \<Rightarrow> bool result \<times> trace" where
  "deploy_backend e t =
     and_then (deploy_backend_commit e (print_header ''Deploying Backend to Heroku'' t))
       (\<lambda>_ t1. deploy_backend_push e t1)"

subsection \<open>Status check\<close>

text \<open>
  The two \<open>try\<close> blocks of \<open>check_status\<close>. Each handler catches every \<open>Exception\<close>,
  so neither block raises; the inner bare \<open>except: pass\<close> drops a failure of
  \<open>response.json()\<close>.
\<close>

definition check_github_pages :: "env \<Rightarrow> trace \<Rightarrow> trace" where
  "check_github_pages e t =
     (let t1 = print_info ''Checking GitHub Pages status...'' t;
          t2 = t1 @ [Get GITHUB_PAGES_URL]
      in case requests_get e t1 GITHUB_PAGES_URL of
           Response status_code _ \<Rightarrow>
             if status_code = 200 then print_success ''GitHub Pages is up and running'' t2
             else print_warning (''GitHub Pages returned status code: '' @ str_int status_code) t2
         | GetFailed m \<Rightarrow> print_error (''Could not connect to GitHub Pages: '' @ m) t2)"

definition check_heroku :: "env \<Rightarrow> trace \<Rightarrow> trace" where
  "check_heroku e t =
     (let t1 = print_info ''Checking Heroku status...'' t;
          t2 = t1 @ [Get HEROKU_API_HEALTH_URL]
      in case requests_get e t1 HEROKU_API_HEALTH_URL of
           Response status_code body \<Rightarrow>
             if status_code = 200 then
               (let t3 = print_success ''Heroku API is up and running'' t2
                in case body of
                     Some data \<Rightarrow> print_info (''API Status: '' @ data) t3
                   | None \<Rightarrow> t3)
             else print_warning (''Heroku API returned status code: '' @ str_int status_code) t2
         | GetFailed m \<Rightarrow> print_error (''Could not connect to Heroku API: '' @ m) t2)"

definition check_status :: "env \<Rightarrow> trace \<Rightarrow> unit result \<times> trace" where
  "check_status e t =
     and_then
       (run_command e ''git status -s'' None True
         (check_heroku e (check_github_pages e (print_header ''Checking Deployment Status'' t))))
       (\<lambda>(stdout, _, _) t1.
         case stdout of
           Some s \<Rightarrow>
             if s \<noteq> [] then (Return (), print s (print_warning ''You have uncommitted changes:'' t1))
             else (Return (), print_success ''Git repository is clean'' t1)
         | None \<Rightarrow> (Return (), print_success ''Git repository is clean'' t1))"

subsection \<open>Update dependencies\<close>

definition update_dependencies :: "env \<Rightarrow> trace \<Rightarrow> unit result \<times> trace" where
  "update_dependencies e t =
     and_then
       (run_command e ''npm update'' None False
         (print_info ''Updating frontend dependencies...'' (print_header ''Updating Dependencies'' t)))
       (\<lambda>(stdout, stderr, code) t1.
         let t2 = (if code \<noteq> 0 then print stderr (print_error ''Frontend dependency update failed:'' t1)
                   else print_success ''Frontend dependencies updated'' t1)
         in and_then
              (run_command e ''npm update'' (Some (SERVER_DIR e)) False
                (print_info ''Updating backend dependencies...'' t2))
              (\<lambda>(stdout, stderr, code) t3.
                if code \<noteq> 0
                then (Return (), print stderr (print_error ''Backend dependency update failed:'' t3))
                else (Return (), print_success ''Backend dependencies updated'' t3)))"

subsection \<open>Create backup\<close>

definition makedirs :: "env \<Rightarrow> string \<Rightarrow> trace \<Rightarrow> unit result \<times> trace" where
  "makedirs e path t =
     (case os_makedirs e t path of
        None \<Rightarrow> (Return (), t @ [MakeDirs path])
      | Some m \<Rightarrow> (Raise (Exception m), t @ [MakeDirs path]))"

definition isfile :: "env \<Rightarrow> string \<Rightarrow> trace \<Rightarrow> bool result \<times> trace" where
  "isfile e path t = (Return (os_path_isfile e t path), t @ [IsFile path])"

definition copy2 :: "env \<Rightarrow> string \<Rightarrow> string \<Rightarrow> trace \<Rightarrow> unit result \<times> trace" where
  "copy2 e src dst t =
     (case shutil_copy2 e t src dst of
        None \<Rightarrow> (Return (), t @ [Copy2 src dst])
      | Some m \<Rightarrow> (Raise (Exception m), t @ [Copy2 src dst]))"

definition rmtree :: "env \<Rightarrow> string \<Rightarrow> trace \<Rightarrow> unit result \<times> trace" where
  "rmtree e path t =
     (case shutil_rmtree e t path of
        None \<Rightarrow> (Return (), t @ [RmTree path])
      | Some m \<Rightarrow> (Raise (Exception m), t @ [RmTree path]))"

text \<open>The loop \<open>for file in untracked_files\<close>.\<close>

fun copy_untracked :: "env \<Rightarrow> string \<Rightarrow> string list \<Rightarrow> trace \<Rightarrow> unit result \<times> trace" where
  "copy_untracked e backup_dir [] t = (Return (), t)"
| "copy_untracked e backup_dir (file # files) t =
     (if file \<noteq> [] then
        and_then (makedirs e (path_join backup_dir (dirname file)) t) (\<lambda>_ t1.
          and_then (isfile e file t1) (\<lambda>is_file t2.
            if is_file then
              and_then (copy2 e file (path_join backup_dir file) t2) (\<lambda>_ t3.
                copy_untracked e backup_dir files t3)
            else copy_untracked e backup_dir files t2))
      else copy_untracked e backup_dir files t)"

text \<open>The body of the \<open>try\<close> block of \<open>create_backup\<close>.\<close>

definition create_backup_try :: "env \<Rightarrow> string \<Rightarrow> trace \<Rightarrow> unit result \<times> trace" where
  "create_backup_try e backup_dir t =
     and_then (makedirs e backup_dir t) (\<lambda>_ t1.
       and_then (run_command e (''git archive HEAD | tar -x -C '' @ backup_dir) None True t1) (\<lambda>_ t2.
         and_then (run_command e ''git ls-files --others --exclude-standard'' None True t2)
           (\<lambda>(stdout, _, _) t3.
             case stdout of
               None \<Rightarrow> (Raise (Exception none_strip_error), t3)
             | Some s \<Rightarrow>
                 and_then (copy_untracked e backup_dir (split_nl (strip e s)) t3) (\<lambda>_ t4.
                   let archive_name = backup_dir @ ''.tar.gz''
                   in and_then
                        (run_command e (''tar -czf '' @ archive_name @ '' '' @ backup_dir) None True t4)
                        (\<lambda>_ t5.
                          and_then (rmtree e backup_dir t5) (\<lambda>_ t6.
                            (Return (), print_success (''Backup created: '' @ archive_name) t6)))))))"

text \<open>\<open>except Exception as e\<close>: a \<open>SystemExit\<close> is not caught.\<close>

definition create_backup :: "env \<Rightarrow> trace \<Rightarrow> unit result \<times> trace" where
  "create_backup e t =
     (let t1 = print_header ''Creating Backup'' t;
          timestamp = strftime_now e t1;
          backup_dir = ''backup_'' @ timestamp
      in and_then (check_git_status e (t1 @ [Now])) (\<lambda>dirty t2.
           let t3 = (if dirty
                     then print_warning
                            ''There are uncommitted changes. These will be included in the backup.'' t2
                     else t2)
           in case create_backup_try e backup_dir t3 of
                (Raise (Exception m), t4) \<Rightarrow> (Return (), print_error (''Backup failed: '' @ m) t4)
              | r \<Rightarrow> r))"

subsection \<open>Help and dispatch\<close>

definition show_help :: "trace \<Rightarrow> trace" where
  "show_help t =
     print ([CHR 0x0A] @ ''Usage: python admin.py [command]'')
    (print ''  help              - Show this help information''
    (print ''  backup            - Create a project backup''
    (print ''  update-deps       - Update npm dependencies''
    (print ''  status            - Check status of deployments''
    (print ''  deploy-all        - Deploy both frontend and backend''
    (print ''  deploy-backend    - Deploy backend to Heroku''
    (print ''  deploy-frontend   - Deploy frontend to GitHub Pages''
    (print ''Available commands:''
    (print_header ''Resume Improvement Tool Admin Script'' t)))))))))"

text \<open>\<open>main\<close>, with \<open>sys.argv\<close> as its argument.\<close>

definition main :: "env \<Rightarrow> string list \<Rightarrow> trace \<Rightarrow> unit result \<times> trace" where
  "main e argv t =
     (if length argv < 2 then (Return (), show_help t)
      else
        let command = lower e (argv ! 1)
        in if command = ''deploy-frontend'' then
             and_then (deploy_frontend e t) (\<lambda>_ t1. (Return (), t1))
           else if command = ''deploy-backend'' then
             and_then (deploy_backend e t) (\<lambda>_ t1. (Return (), t1))
           else if command = ''deploy-all'' then
             and_then (deploy_frontend e t) (\<lambda>frontend_ok t1.
               and_then (deploy_backend e t1) (\<lambda>backend_ok t2.
                 if frontend_ok \<and> backend_ok
                 then (Return (), print_success ''Both frontend and backend deployed successfully!'' t2)
                 else (Return (),
                       print_warning ''There were issues with the deployment. Check the logs above.'' t2)))
           else if command = ''status'' then check_status e t
           else if command = ''update-deps'' then update_dependencies e t
           else if command = ''backup'' then create_backup e t
           else if command \<in> set [''help'', ''--help'', ''-h''] then (Return (), show_help t)
           else (Return (), show_help (print_error (''Unknown command: '' @ command) t)))"

subsection \<open>Environments for concrete runs\<close>

text \<open>
  \<open>quiet\<close> is a clean repository in which every command succeeds without output; the
  others differ from it in the answers named by their fields.
\<close>

definition quiet :: env where
  "quiet =
     \<lparr> project_root = ''/srv/app'',
       spawn = (\<lambda>t c d. Exited [] [] 0),
       read_line = (\<lambda>t. Some ''n''),
       requests_get = (\<lambda>t url. Response 200 (Some ''{}'')),
       strftime_now = (\<lambda>t. ''20240131_235959''),
       os_makedirs = (\<lambda>t p. None),
       os_path_isfile = (\<lambda>t p. True),
       shutil_copy2 = (\<lambda>t a b. None),
       shutil_rmtree = (\<lambda>t p. None),
       unicode_lower = (\<lambda>s. s),
       unicode_strip = (\<lambda>s. s) \<rparr>"

definition always_failing :: env where
  "always_failing =
     quiet \<lparr> spawn := (\<lambda>t c d. Exited (''partial'' @ [CHR 0x0A]) (''fatal: boom'' @ [CHR 0x0A]) 128) \<rparr>"


definition archive_fails :: env where
  "archive_fails =
     quiet \<lparr> spawn := (\<lambda>t c d.
               if c = ''git archive HEAD | tar -x -C backup_20240131_235959''
               then Exited [] ''tar: This does not look like a tar archive'' 2
               else Exited [] [] 0) \<rparr>"

definition copy_fails :: env where
  "copy_fails =
     quiet \<lparr> spawn := (\<lambda>t c d.
               if c = ''git ls-files --others --exclude-standard''
               then Exited (''notes.txt'' @ [CHR 0x0A]) [] 0
               else Exited [] [] 0),
             shutil_copy2 := (\<lambda>t a b. Some ''[Errno 13] Permission denied'') \<rparr>"

definition push_rejected :: env where
  "push_rejected =
     quiet \<lparr> spawn := (\<lambda>t c d. if c = ''git push heroku main''
                                 then Exited [] ''! [rejected] main -> main'' 1
                                 else Exited [] [] 0) \<rparr>"

definition dirty_add_fails :: env where
  "dirty_add_fails =
     quiet \<lparr> spawn := (\<lambda>t c d.
               if c = ''git status --porcelain'' then Exited ('' M admin.py'' @ [CHR 0x0A]) [] 0
               else if c = ''git add .'' then Exited [] ''fatal: Unable to create index.lock'' 128
               else Exited [] [] 0),
             read_line := (\<lambda>t.
               if Input ''Do you want to commit them before deployment? (y/n): '' \<in> set t
               then Some ''wip'' else Some ''Y'') \<rparr>"

definition dirty_commit_fails :: env where
  "dirty_commit_fails =
     quiet \<lparr> spawn := (\<lambda>t c d.
               if c = ''git status --porcelain'' then Exited ('' M admin.py'' @ [CHR 0x0A]) [] 0
               else if c = ''git commit -m '' @ [CHR 0x22] @ ''wip'' @ [CHR 0x22]
               then Exited [] ''error: gpg failed to sign the data'' 128
               else Exited [] [] 0),
             read_line := (\<lambda>t.
               if Input ''Do you want to commit them before deployment? (y/n): '' \<in> set t
               then Some ''wip'' else Some ''Y'') \<rparr>"

definition dirty_declined :: env where
  "dirty_declined =
     quiet \<lparr> spawn := (\<lambda>t c d.
               if c = ''git status --porcelain'' then Exited ('' M admin.py'' @ [CHR 0x0A]) [] 0
               else Exited [] [] 0) \<rparr>"

definition pages_500_heroku_down :: env where
  "pages_500_heroku_down =
     quiet \<lparr> requests_get := (\<lambda>t url. if url = GITHUB_PAGES_URL then Response 500 None
                                      else GetFailed ''Connection refused'') \<rparr>"

definition pages_down_heroku_503 :: env where
  "pages_down_heroku_503 =
     quiet \<lparr> requests_get := (\<lambda>t url. if url = GITHUB_PAGES_URL then GetFailed ''Read timed out''
                                      else Response 503 None) \<rparr>"

definition heroku_bad_json :: env where
  "heroku_bad_json = quiet \<lparr> requests_get := (\<lambda>t url. Response 200 None) \<rparr>"

definition compress_fails :: env where
  "compress_fails =
     quiet \<lparr> spawn := (\<lambda>t c d.
               if c = ''tar -czf backup_20240131_235959.tar.gz backup_20240131_235959''
               then Exited [] ''tar: backup_20240131_235959.tar.gz: Cannot write: No space left on device'' 2
               else Exited [] [] 0) \<rparr>"

definition on_develop :: env where
  "on_develop =
     quiet \<lparr> spawn := (\<lambda>t c d. if c = ''git branch --show-current''
                                 then Exited (''develop'' @ [CHR 0x0A]) [] 0
                                 else Exited [] [] 0) \<rparr>"

subsection \<open>What a push command names\<close>

text \<open>
  The claim about the push speaks of the branch that is pushed, which is git's reading of the
  command line and not something the script computes. From the git manual: in
  \<open>git push <repository> <refspec>\<close> a refspec without a colon is the name of the local
  branch that is pushed and of the branch of the repository that receives it; the branch that
  is checked out is the one \<open>git branch --show-current\<close> prints.
\<close>

fun split_sp :: "string \<Rightarrow> string list" where
  "split_sp [] = [[]]"
| "split_sp (c # cs) =
     (if c = CHR '' '' then [] # split_sp cs
      else (case split_sp cs of [] \<Rightarrow> [[c]] | l # ls \<Rightarrow> (c # l) # ls))"

definition pushed_branch :: "string \<Rightarrow> string option" where
  "pushed_branch command =
     (case split_sp command of
        [git, push, repository, refspec] \<Rightarrow>
          if git = ''git'' \<and> push = ''push'' \<and> CHR '':'' \<notin> set refspec then Some refspec else None
      | _ \<Rightarrow> None)"

definition current_branch :: "env \<Rightarrow> trace \<Rightarrow> string option" where
  "current_branch e t =
     (case spawn e t ''git branch --show-current'' (project_root e) of
        Exited out err code \<Rightarrow> if code = 0 then Some (strip e out) else None
      | SpawnFailed m \<Rightarrow> None)"

subsection \<open>The files a backup works on\<close>

text \<open>
  Modelled from the spec: the programs and file operations that the backup drives are no part
  of the source, which only issues them. What they do to files is taken from section 4.8 of
  the specification: the export writes every version-controlled file, with its committed
  content, below the given directory; the listing enumerates the files of the working tree
  that are not tracked by version control; a copy writes the content of a file to the
  destination path; the compression stores every file below the directory in the archive;
  the deletion removes the directory and all below it. Paths are relative to the project
  root, which is also the working directory of the process.
\<close>

record worktree =
  head_files :: "(string \<times> string) list"     \<comment> \<open>the committed files: path and content\<close>
  work_files :: "(string \<times> string) list"     \<comment> \<open>the files of the working tree: path and content\<close>
  work_dirs :: "string list"                  \<comment> \<open>the directories created so far\<close>
  tar_archives :: "(string \<times> (string \<times> string) list) list"
    \<comment> \<open>the archives written so far: name and member files\<close>

definition inside :: "string \<Rightarrow> string \<Rightarrow> bool" where
  "inside d p = prefix (d @ ''/'') p"

definition write_file :: "string \<Rightarrow> string \<Rightarrow> (string \<times> string) list \<Rightarrow> (string \<times> string) list" where
  "write_file p c fs = (p, c) # filter (\<lambda>(q, _). q \<noteq> p) fs"

definition tracked :: "worktree \<Rightarrow> string \<Rightarrow> bool" where
  "tracked w p = (p \<in> set (map fst (head_files w)))"

definition untracked :: "worktree \<Rightarrow> string list" where
  "untracked w = filter (\<lambda>p. \<not> tracked w p) (map fst (work_files w))"

definition export_head :: "string \<Rightarrow> worktree \<Rightarrow> worktree" where
  "export_head d w =
     w \<lparr> work_files := foldr (\<lambda>(p, c). write_file (path_join d p) c) (head_files w) (work_files w) \<rparr>"

definition make_dirs :: "string \<Rightarrow> worktree \<Rightarrow> worktree" where
  "make_dirs d w = w \<lparr> work_dirs := (if d \<in> set (work_dirs w) then work_dirs w else d # work_dirs w) \<rparr>"

definition copy_file :: "string \<Rightarrow> string \<Rightarrow> worktree \<Rightarrow> worktree" where
  "copy_file src dst w =
     (case map_of (work_files w) src of
        None \<Rightarrow> w
      | Some c \<Rightarrow> w \<lparr> work_files := write_file dst c (work_files w) \<rparr>)"

definition compress :: "string \<Rightarrow> string \<Rightarrow> worktree \<Rightarrow> worktree" where
  "compress name d w =
     w \<lparr> tar_archives := (name, filter (\<lambda>(p, _). inside d p) (work_files w)) # tar_archives w \<rparr>"

definition remove_tree :: "string \<Rightarrow> worktree \<Rightarrow> worktree" where
  "remove_tree d w =
     w \<lparr> work_files := filter (\<lambda>(p, _). \<not> inside d p) (work_files w),
         work_dirs := filter (\<lambda>p. p \<noteq> d \<and> \<not> inside d p) (work_dirs w) \<rparr>"

definition after_prefix :: "string \<Rightarrow> string \<Rightarrow> string option" where
  "after_prefix p s = (if prefix p s then Some (drop (length p) s) else None)"

text \<open>What an event of a run does to the files, and the files after a trace.\<close>

fun effect :: "event \<Rightarrow> worktree \<Rightarrow> worktree" where
  "effect (MakeDirs d) w = make_dirs d w"
| "effect (Copy2 src dst) w = copy_file src dst w"
| "effect (RmTree d) w = remove_tree d w"
| "effect (Run command dir check) w =
     (case after_prefix ''git archive HEAD | tar -x -C '' command of
        Some d \<Rightarrow> export_head d w
      | None \<Rightarrow>
          (case split_sp command of
             [tar, czf, name, d] \<Rightarrow>
               if tar = ''tar'' \<and> czf = ''-czf'' then compress name d w else w
           | _ \<Rightarrow> w))"
| "effect _ w = w"

definition replay :: "worktree \<Rightarrow> trace \<Rightarrow> worktree" where
  "replay w t = foldl (\<lambda>w' ev. effect ev w') w t"

definition unlines :: "string list \<Rightarrow> string" where
  "unlines ls = concat (map (\<lambda>l. l @ [CHR 0x0A]) ls)"

text \<open>
  The short status: one line for each untracked file and for each committed file whose content
  in the working tree differs or is missing.
\<close>

definition status_lines :: "worktree \<Rightarrow> string list" where
  "status_lines w =
     map (\<lambda>p. ''?? '' @ p) (untracked w) @
     concat (map (\<lambda>(p, c). case map_of (work_files w) p of
                              None \<Rightarrow> ['' D '' @ p]
                            | Some c' \<Rightarrow> if c' = c then [] else ['' M '' @ p])
                 (head_files w))"

text \<open>
  The environment of a backup run that starts at the clock reading \<open>now\<close> on the files
  \<open>w\<close>: every command succeeds, and the answers about files are read off the files as the
  run has left them.
\<close>

definition backup_world :: "string \<Rightarrow> worktree \<Rightarrow> env" where
  "backup_world now w =
     quiet \<lparr> spawn := (\<lambda>t c d.
               if c = ''git status --porcelain'' then Exited (unlines (status_lines (replay w t))) [] 0
               else if c = ''git ls-files --others --exclude-standard''
               then Exited (unlines (untracked (replay w t))) [] 0
               else Exited [] [] 0),
             strftime_now := (\<lambda>t. now),
             os_path_isfile := (\<lambda>t p. p \<in> set (map fst (work_files (replay w t)))) \<rparr>"

text \<open>
  The vocabulary of the claim about the archive: the tracked and the untracked files of the
  working tree, and the members of an archive under their paths relative to its top directory.
\<close>

definition tracked_files :: "worktree \<Rightarrow> (string \<times> string) list" where
  "tracked_files w = filter (\<lambda>(p, _). tracked w p) (work_files w)"

definition untracked_files :: "worktree \<Rightarrow> (string \<times> string) list" where
  "untracked_files w = filter (\<lambda>(p, _). \<not> tracked w p) (work_files w)"

definition extracted :: "string \<Rightarrow> (string \<times> string) list \<Rightarrow> (string \<times> string) list" where
  "extracted d members = map (\<lambda>(p, c). (drop (length d + 1) p, c)) members"

definition one_committed_file :: worktree where
  "one_committed_file =
     \<lparr> head_files = [(''README.md'', ''hello'')],
       work_files = [(''README.md'', ''hello'')],
       work_dirs = [],
       tar_archives = [] \<rparr>"

section \<open>Properties\<close>

subsection \<open>Sequencing and traces\<close>

lemma and_then_Return [simp]: "and_then (Return x, t) f = f x t"
  by (simp add: and_then_def)

lemma and_then_Raise [simp]: "and_then (Raise x, t) f = (Raise x, t)"
  by (simp add: and_then_def)

lemma and_then_RaiseE:
  assumes "and_then m f = (Raise x, t')"
      and "m = (Raise x, t') \<Longrightarrow> P"
      and "\<And>y t. m = (Return y, t) \<Longrightarrow> f y t = (Raise x, t') \<Longrightarrow> P"
  shows P
proof (cases m)
  case (Pair r t)
  with assms show ?thesis by (cases r) simp_all
qed

text \<open>Every step only adds events at the end of the trace.\<close>

lemma and_then_prefix:
  assumes "prefix t (snd m)" and "\<And>x t'. prefix t t' \<Longrightarrow> prefix t (snd (f x t'))"
  shows "prefix t (snd (and_then m f))"
proof (cases m)
  case (Pair r t')
  with assms show ?thesis by (cases r) simp_all
qed

lemma prints_prefix:
  assumes "prefix t t'"
  shows "prefix t (print s t')" and "prefix t (print_header s t')"
    and "prefix t (print_success s t')" and "prefix t (print_error s t')"
    and "prefix t (print_info s t')" and "prefix t (print_warning s t')"
  using assms
  by (simp_all add: print_def print_header_def print_success_def print_error_def
        print_info_def print_warning_def)

lemma run_command_first:
  "prefix (t @ [Run c (cwd_or_root e cwd) chk]) (snd (run_command e c cwd chk t))"
  by (simp add: run_command_def Let_def print_def print_error_def split: run_result.split)

lemma run_command_prefix:
  "prefix t t' \<Longrightarrow> prefix t (snd (run_command e c cwd chk t'))"
  using run_command_first [of t' c e cwd chk] by (auto elim: prefix_order.trans append_prefixD)

lemma input_prefix: "prefix t t' \<Longrightarrow> prefix t (snd (input e p t'))"
  by (simp add: input_def split: option.split)

lemma check_git_status_first:
  "prefix (t @ [Run ''git status --porcelain'' (project_root e) True]) (snd (check_git_status e t))"
  unfolding check_git_status_def
  by (rule and_then_prefix)
     (use run_command_first [of t _ e None] in \<open>auto simp: cwd_or_root_def split: option.split\<close>)

lemma check_git_status_prefix:
  "prefix t t' \<Longrightarrow> prefix t (snd (check_git_status e t'))"
  using check_git_status_first [of t' e] by (auto elim: prefix_order.trans append_prefixD)


lemma deploy_backend_commit_prefix:
  "prefix t t' \<Longrightarrow> prefix t (snd (deploy_backend_commit e t'))"
  unfolding deploy_backend_commit_def
  by (intro and_then_prefix check_git_status_prefix)
     (auto split: prod.split intro!: and_then_prefix run_command_prefix input_prefix prints_prefix)


lemma show_help_append: "show_help t = t @ show_help []"
  by (simp add: show_help_def print_def print_header_def)

lemma lower_help [simp]: "lower e ''help'' = ''help''"
  by (simp add: lower_def lower_char_def is_ascii_def is_ascii_def)

text \<open>
  Outside ASCII the lower-case form is what Python's tables give: an argument written with
  the Kelvin sign (U+212A, which \<open>str.lower()\<close> maps to \<open>k\<close>) is the \<open>backup\<close> command.
\<close>

lemma main_kelvin_sign_backup:
  assumes "unicode_lower e (''bac'' @ [CHR 0xE2, CHR 0x84, CHR 0xAA] @ ''up'') = ''backup''"
  shows "main e [prog, ''bac'' @ [CHR 0xE2, CHR 0x84, CHR 0xAA] @ ''up''] t = create_backup e t"
  using assms by (simp add: main_def lower_def is_ascii_def Let_def)

lemmas print_defs =
  print_def print_header_def print_success_def print_error_def print_info_def print_warning_def

lemmas colour_defs =
  header_text_def success_text_def error_text_def info_text_def warning_text_def
  HEADER_def BLUE_def GREEN_def YELLOW_def RED_def ENDC_def BOLD_def esc_def

lemmas url_defs =
  GITHUB_PAGES_URL_def GITHUB_REPO_URL_def HEROKU_URL_def HEROKU_API_HEALTH_URL_def
  GITHUB_USERNAME_def REPO_NAME_def HEROKU_APP_NAME_def HEROKU_REMOTE_def

lemmas text_defs =
  lower_def lower_char_def is_ascii_def strip_def isspace_def is_ascii_def dirname_def rstrip_slash_def path_join_def

lemmas model_defs =
  main_def create_backup_def create_backup_try_def check_git_status_def run_command_def
  subprocess_run_def cwd_or_root_def makedirs_def isfile_def copy2_def rmtree_def
  deploy_frontend_def deploy_frontend_build_def deploy_backend_def deploy_backend_commit_def
  deploy_backend_push_def input_def check_status_def check_github_pages_def check_heroku_def
  print_defs text_defs Let_def

subsection \<open>The process runner\<close>

lemma run_command_strict_failure:
  assumes "spawn e t c (project_root e) = Exited out err code" and "code \<noteq> 0"
  shows "run_command e c None True t =
           (Raise (SystemExit 1),
            t @ [Run c (project_root e) True, Print (error_text (''Command failed: '' @ c)), Print err])"
  using assms
  by (simp add: run_command_def subprocess_run_def cwd_or_root_def Let_def print_def print_error_def)

lemma run_command_success:
  assumes "spawn e t c (project_root e) = Exited out err 0"
  shows "run_command e c None chk t =
           (Return (Some (strip e out), strip e err, 0), t @ [Run c (project_root e) chk])"
  using assms
  by (simp add: run_command_def subprocess_run_def cwd_or_root_def Let_def)

lemma run_command_SystemExit:
  "run_command e c cwd chk t = (Raise (SystemExit n), t') \<Longrightarrow> n = 1"
  by (simp add: run_command_def Let_def split: run_result.splits if_splits)

text \<open>
  C2. When the command ran and exited with \<open>code\<close>: with \<open>check\<close> set and a non-zero
  code, \<open>run_command\<close> prints the failure line and the captured standard error and raises
  \<open>SystemExit 1\<close>, which is a non-zero exit status of the program; with \<open>check\<close> unset
  it returns the triple of standard output, standard error (both stripped of surrounding
  whitespace, as the source does) and exit code, and prints nothing.
\<close>

theorem run_command_contract:
  assumes "spawn e t command (cwd_or_root e cwd) = Exited out err code"
  shows "(check \<and> code \<noteq> 0 \<longrightarrow>
            run_command e command cwd check t =
              (Raise (SystemExit 1),
               t @ [Run command (cwd_or_root e cwd) check,
                    Print (error_text (''Command failed: '' @ command)), Print err])
            \<and> exit_code (fst (run_command e command cwd check t)) \<noteq> 0)
       \<and> (\<not> check \<longrightarrow>
            run_command e command cwd check t =
              (Return (Some (strip e out), strip e err, code),
               t @ [Run command (cwd_or_root e cwd) check]))"
  using assms
  by (simp add: run_command_def subprocess_run_def print_def print_error_def Let_def)

theorem run_command_contract_witness:
  "run_command always_failing ''git add .'' None True [] =
     (Raise (SystemExit 1),
      [Run ''git add .'' ''/srv/app'' True, Print (error_text ''Command failed: git add .''),
       Print (''fatal: boom'' @ [CHR 0x0A])])
   \<and> run_command always_failing ''git add .'' None False [] =
     (Return (Some ''partial'', ''fatal: boom'', 128), [Run ''git add .'' ''/srv/app'' False])"
proof -
  have h: "spawn always_failing [] ''git add .'' (cwd_or_root always_failing None) =
             Exited (''partial'' @ [CHR 0x0A]) (''fatal: boom'' @ [CHR 0x0A]) 128"
    by (simp add: always_failing_def)
  show ?thesis
    using run_command_contract [OF h, of True] run_command_contract [OF h, of False]
    by (simp add: always_failing_def quiet_def cwd_or_root_def strip_def isspace_def is_ascii_def)
qed

subsection \<open>Backup\<close>

lemma makedirs_no_SystemExit: "makedirs e p t \<noteq> (Raise (SystemExit n), t')"
  by (simp add: makedirs_def split: option.split)

lemma copy2_no_SystemExit: "copy2 e a b t \<noteq> (Raise (SystemExit n), t')"
  by (simp add: copy2_def split: option.split)

lemma rmtree_no_SystemExit: "rmtree e p t \<noteq> (Raise (SystemExit n), t')"
  by (simp add: rmtree_def split: option.split)

lemma copy_untracked_no_SystemExit:
  "copy_untracked e d fs t \<noteq> (Raise (SystemExit n), t')"
proof (induction fs arbitrary: t)
  case Nil
  show ?case by simp
next
  case (Cons f fs)
  show ?case
  proof
    assume a: "copy_untracked e d (f # fs) t = (Raise (SystemExit n), t')"
    show False
    proof (cases "f = []")
      case True
      with a Cons.IH show False by simp
    next
      case False
      with a have "and_then (makedirs e (path_join d (dirname f)) t) (\<lambda>_ t1.
          and_then (isfile e f t1) (\<lambda>is_file t2.
            if is_file then
              and_then (copy2 e f (path_join d f) t2) (\<lambda>_ t3. copy_untracked e d fs t3)
            else copy_untracked e d fs t2)) = (Raise (SystemExit n), t')"
        by simp
      then show False
        by (elim and_then_RaiseE)
           (auto simp: makedirs_no_SystemExit copy2_no_SystemExit Cons.IH isfile_def
              elim!: and_then_RaiseE split: if_splits)
    qed
  qed
qed

lemma create_backup_try_SystemExit:
  assumes "create_backup_try e d t = (Raise (SystemExit n), t')"
  shows "n = 1"
  using assms unfolding create_backup_try_def Let_def
  by (elim and_then_RaiseE)
     (auto simp: makedirs_no_SystemExit rmtree_no_SystemExit copy_untracked_no_SystemExit
        dest: run_command_SystemExit elim!: and_then_RaiseE split: option.splits)

text \<open>
  A run of the \<open>try\<close> block that returns has created the directory, run the export and
  the listing, and ends with the compression of the directory into the archive named after
  it, the removal of the directory, and the success line.
\<close>

lemma and_then_ReturnE:
  assumes "and_then m f = (Return y, t')"
      and "\<And>x t. m = (Return x, t) \<Longrightarrow> f x t = (Return y, t') \<Longrightarrow> P"
  shows P
proof (cases m)
  case (Pair r t)
  with assms show ?thesis by (cases r) simp_all
qed

lemma run_command_Return_strict:
  "run_command e c None True t = (Return r, t') \<Longrightarrow> t' = t @ [Run c (project_root e) True]"
  by (auto simp: run_command_def cwd_or_root_def Let_def split: run_result.splits)

lemma makedirs_Return: "makedirs e p t = (Return u, t') \<Longrightarrow> t' = t @ [MakeDirs p]"
  by (auto simp: makedirs_def split: option.splits)

lemma rmtree_Return: "rmtree e p t = (Return u, t') \<Longrightarrow> t' = t @ [RmTree p]"
  by (auto simp: rmtree_def split: option.splits)

lemma copy_untracked_prefix:
  "prefix t t' \<Longrightarrow> prefix t (snd (copy_untracked e d fs t'))"
proof (induction fs arbitrary: t')
  case Nil
  then show ?case by simp
next
  case (Cons f fs)
  show ?case
  proof (cases "f = []")
    case True
    with Cons show ?thesis by simp
  next
    case False
    have "prefix t (snd (and_then (makedirs e (path_join d (dirname f)) t') (\<lambda>_ t1.
          and_then (isfile e f t1) (\<lambda>is_file t2.
            if is_file then
              and_then (copy2 e f (path_join d f) t2) (\<lambda>_ t3. copy_untracked e d fs t3)
            else copy_untracked e d fs t2))))"
      using Cons.prems
      by (intro and_then_prefix)
         (auto simp: makedirs_def isfile_def copy2_def split: option.split
            intro!: and_then_prefix Cons.IH)
    with False show ?thesis by simp
  qed
qed

lemma copy_untracked_extends:
  "copy_untracked e d fs t = (r, t') \<Longrightarrow> prefix t t'"
  using copy_untracked_prefix [of t t e d fs] by simp

lemma create_backup_try_success:
  assumes "create_backup_try e d t = (Return (), t')"
  shows "\<exists>t4. prefix (t @ [MakeDirs d,
                             Run (''git archive HEAD | tar -x -C '' @ d) (project_root e) True,
                             Run ''git ls-files --others --exclude-standard'' (project_root e) True])
                    t4
            \<and> t' = t4 @ [Run (''tar -czf '' @ d @ ''.tar.gz '' @ d) (project_root e) True,
                         RmTree d,
                         Print (success_text (''Backup created: '' @ d @ ''.tar.gz''))]"
  using assms unfolding create_backup_try_def Let_def
  by (auto simp: print_success_def print_def elim!: and_then_ReturnE split: option.splits
        dest!: makedirs_Return rmtree_Return run_command_Return_strict copy_untracked_extends)

lemma run_command_spawn_failed:
  assumes "spawn e t c (project_root e) = SpawnFailed m"
  shows "run_command e c None chk t = (Raise (Exception m), t @ [Run c (project_root e) chk])"
  using assms
  by (simp add: run_command_def subprocess_run_def cwd_or_root_def Let_def)

lemma copy_untracked_append:
  "copy_untracked e d (fs0 @ fs1) t =
     and_then (copy_untracked e d fs0 t) (\<lambda>_ t'. copy_untracked e d fs1 t')"
proof (induction fs0 arbitrary: t)
  case Nil
  show ?case by simp
next
  case (Cons f fs0)
  show ?case
    by (cases "f = []")
       (simp_all add: Cons.IH makedirs_def isfile_def copy2_def split: option.split)
qed

lemma copy_untracked_makedirs_fails:
  assumes "copy_untracked e d fs0 t = (Return (), ta)" and "f \<noteq> []"
      and "os_makedirs e ta (path_join d (dirname f)) = Some m"
  shows "copy_untracked e d (fs0 @ f # fs1) t =
           (Raise (Exception m), ta @ [MakeDirs (path_join d (dirname f))])"
  using assms by (simp add: copy_untracked_append makedirs_def)

lemma copy_untracked_copy_fails:
  assumes "copy_untracked e d fs0 t = (Return (), ta)" and "f \<noteq> []"
      and "os_makedirs e ta (path_join d (dirname f)) = None"
      and "os_path_isfile e (ta @ [MakeDirs (path_join d (dirname f))]) f"
      and "shutil_copy2 e (ta @ [MakeDirs (path_join d (dirname f)), IsFile f]) f (path_join d f)
             = Some m"
  shows "copy_untracked e d (fs0 @ f # fs1) t =
           (Raise (Exception m),
            ta @ [MakeDirs (path_join d (dirname f)), IsFile f, Copy2 f (path_join d f)])"
  using assms by (simp add: copy_untracked_append makedirs_def isfile_def copy2_def)

text \<open>
  C1, as stated, fails: the three commands of the sequence run through the strict process
  runner, whose \<open>SystemExit\<close> is not an \<open>Exception\<close>. When the archive export exits with
  status 2, the program prints no backup failure message and exits with status 1.
\<close>

theorem create_backup_archive_failure_exits_1:
  "main archive_fails [''admin.py'', ''backup''] [] =
     (Raise (SystemExit 1),
      [Print (CHR 0x0A # CHR 0x1B # ''[95m'' @ CHR 0x1B # ''[1m'' @
              ''=== Creating Backup ==='' @ CHR 0x1B # ''[0m'' @ [CHR 0x0A]),
       Now,
       Run ''git status --porcelain'' ''/srv/app'' True,
       MakeDirs ''backup_20240131_235959'',
       Run ''git archive HEAD | tar -x -C backup_20240131_235959'' ''/srv/app'' True,
       Print (CHR 0x1B # ''[91m'' @ [CHR 0xE2, CHR 0x9C, CHR 0x97] @
              '' Command failed: git archive HEAD | tar -x -C backup_20240131_235959'' @ CHR 0x1B # ''[0m''),
       Print ''tar: This does not look like a tar archive''])
   \<and> exit_code (fst (main archive_fails [''admin.py'', ''backup''] [])) = 1"
  by (simp add: model_defs colour_defs archive_fails_def quiet_def)

text \<open>
  C1 (amended). Once the dirtiness check has returned, the \<open>try\<close> block runs its steps in
  order, and each way a step can fail ends the run as follows. An \<open>Exception\<close> raised by the
  creation of the backup directory, by the creation of a directory for an untracked file, by
  the copy of an untracked file, by the removal of the backup directory, or by a command that
  could not be started, is caught: the last line printed is \<open>Backup failed: \<close> followed by
  its text, nothing after the failing step is run, and the program exits with status 0. A
  non-zero exit code of the export, of the listing or of the compression, each run with
  \<open>check\<close> set, is not caught: the run prints the command failure line and the command's
  standard error and ends with \<open>SystemExit 1\<close>, exit status 1.
\<close>

theorem create_backup_exception_handling:
  assumes "check_git_status e (print_header ''Creating Backup'' t @ [Now]) = (Return dirty, t2)"
      and "t3 = (if dirty
                 then print_warning
                        ''There are uncommitted changes. These will be included in the backup.'' t2
                 else t2)"
      and "d = ''backup_'' @ strftime_now e (print_header ''Creating Backup'' t)"
      and "export_cmd = ''git archive HEAD | tar -x -C '' @ d"
      and "listing_cmd = ''git ls-files --others --exclude-standard''"
      and "compress_cmd = ''tar -czf '' @ d @ ''.tar.gz '' @ d"
      and "t4 = t3 @ [MakeDirs d]"
      and "t5 = t4 @ [Run export_cmd (project_root e) True]"
      and "t6 = t5 @ [Run listing_cmd (project_root e) True]"
      and "t8 = t7 @ [Run compress_cmd (project_root e) True]"
      and "run = main e [prog, ''backup''] t"
  shows
    "(os_makedirs e t3 d = Some m \<longrightarrow>
        run = (Return (),
               t4 @ [Print (CHR 0x1B # ''[91m'' @ [CHR 0xE2, CHR 0x9C, CHR 0x97] @
                             '' Backup failed: '' @ m @ CHR 0x1B # ''[0m'')])
        \<and> exit_code (fst run) = 0)
   \<and> (os_makedirs e t3 d = None \<longrightarrow>
        (spawn e t4 export_cmd (project_root e) = Exited out err code \<and> code \<noteq> 0 \<longrightarrow>
           run = (Raise (SystemExit 1),
                  t5 @ [Print (CHR 0x1B # ''[91m'' @ [CHR 0xE2, CHR 0x9C, CHR 0x97] @
                                '' Command failed: '' @ export_cmd @ CHR 0x1B # ''[0m''),
                       Print err])
           \<and> exit_code (fst run) = 1)
      \<and> (spawn e t4 export_cmd (project_root e) = SpawnFailed m \<longrightarrow>
           run = (Return (),
                  t5 @ [Print (CHR 0x1B # ''[91m'' @ [CHR 0xE2, CHR 0x9C, CHR 0x97] @
                                '' Backup failed: '' @ m @ CHR 0x1B # ''[0m'')])
           \<and> exit_code (fst run) = 0)
      \<and> (spawn e t4 export_cmd (project_root e) = Exited out1 err1 0 \<longrightarrow>
           (spawn e t5 listing_cmd (project_root e) = Exited out err code \<and> code \<noteq> 0 \<longrightarrow>
              run = (Raise (SystemExit 1),
                     t6 @ [Print (CHR 0x1B # ''[91m'' @ [CHR 0xE2, CHR 0x9C, CHR 0x97] @
                                   '' Command failed: '' @ listing_cmd @ CHR 0x1B # ''[0m''),
                          Print err])
              \<and> exit_code (fst run) = 1)
         \<and> (spawn e t5 listing_cmd (project_root e) = SpawnFailed m \<longrightarrow>
              run = (Return (),
                     t6 @ [Print (CHR 0x1B # ''[91m'' @ [CHR 0xE2, CHR 0x9C, CHR 0x97] @
                                   '' Backup failed: '' @ m @ CHR 0x1B # ''[0m'')])
              \<and> exit_code (fst run) = 0)
         \<and> (spawn e t5 listing_cmd (project_root e) = Exited out2 err2 0 \<longrightarrow>
              (split_nl (strip e (strip e out2)) = fs0 @ f # fs1
               \<and> copy_untracked e d fs0 t6 = (Return (), ta) \<and> f \<noteq> []
               \<and> os_makedirs e ta (path_join d (dirname f)) = Some m \<longrightarrow>
                 run = (Return (),
                        ta @ [MakeDirs (path_join d (dirname f)),
                             Print (CHR 0x1B # ''[91m'' @ [CHR 0xE2, CHR 0x9C, CHR 0x97] @
                                      '' Backup failed: '' @ m @ CHR 0x1B # ''[0m'')])
                 \<and> exit_code (fst run) = 0)
            \<and> (split_nl (strip e (strip e out2)) = fs0 @ f # fs1
               \<and> copy_untracked e d fs0 t6 = (Return (), ta) \<and> f \<noteq> []
               \<and> os_makedirs e ta (path_join d (dirname f)) = None
               \<and> os_path_isfile e (ta @ [MakeDirs (path_join d (dirname f))]) f
               \<and> shutil_copy2 e (ta @ [MakeDirs (path_join d (dirname f)), IsFile f]) f
                     (path_join d f) = Some m \<longrightarrow>
                 run = (Return (),
                        ta @ [MakeDirs (path_join d (dirname f)),
                             IsFile f,
                             Copy2 f (path_join d f),
                             Print (CHR 0x1B # ''[91m'' @ [CHR 0xE2, CHR 0x9C, CHR 0x97] @
                                      '' Backup failed: '' @ m @ CHR 0x1B # ''[0m'')])
                 \<and> exit_code (fst run) = 0)
            \<and> (copy_untracked e d (split_nl (strip e (strip e out2))) t6 = (Return (), t7) \<longrightarrow>
                 (spawn e t7 compress_cmd (project_root e) = Exited out err code \<and> code \<noteq> 0 \<longrightarrow>
                    run = (Raise (SystemExit 1),
                           t8 @ [Print (CHR 0x1B # ''[91m'' @ [CHR 0xE2, CHR 0x9C, CHR 0x97] @
                                         '' Command failed: '' @ compress_cmd @ CHR 0x1B # ''[0m''),
                                Print err])
                    \<and> exit_code (fst run) = 1)
               \<and> (spawn e t7 compress_cmd (project_root e) = SpawnFailed m \<longrightarrow>
                    run = (Return (),
                           t8 @ [Print (CHR 0x1B # ''[91m'' @ [CHR 0xE2, CHR 0x9C, CHR 0x97] @
                                         '' Backup failed: '' @ m @ CHR 0x1B # ''[0m'')])
                    \<and> exit_code (fst run) = 0)
               \<and> (spawn e t7 compress_cmd (project_root e) = Exited out3 err3 0
                  \<and> shutil_rmtree e t8 d = Some m \<longrightarrow>
                    run = (Return (),
                           t8 @ [RmTree d,
                                Print (CHR 0x1B # ''[91m'' @ [CHR 0xE2, CHR 0x9C, CHR 0x97] @
                                         '' Backup failed: '' @ m @ CHR 0x1B # ''[0m'')])
                    \<and> exit_code (fst run) = 0)))))"
proof -
  have M: "run = (case create_backup_try e d t3 of
                    (Raise (Exception m), t') \<Rightarrow>
                      (Return (), print_error (''Backup failed: '' @ m) t')
                  | r \<Rightarrow> r)"
    using assms(1)
    by (simp add: assms(2,3,11) main_def create_backup_def lower_def lower_char_def is_ascii_def Let_def)
  show ?thesis
    unfolding M assms(4-10)
    by (intro conjI impI; (elim conjE)?;
        simp add: create_backup_try_def makedirs_def isfile_def copy2_def rmtree_def
          run_command_def subprocess_run_def cwd_or_root_def Let_def
          copy_untracked_append print_defs colour_defs)
qed

theorem create_backup_exception_handling_witness:
  "main copy_fails [''admin.py'', ''backup''] [] =
     (Return (),
      [Print (CHR 0x0A # CHR 0x1B # ''[95m'' @ CHR 0x1B # ''[1m'' @
              ''=== Creating Backup ==='' @ CHR 0x1B # ''[0m'' @ [CHR 0x0A]),
       Now,
       Run ''git status --porcelain'' ''/srv/app'' True,
       MakeDirs ''backup_20240131_235959'',
       Run ''git archive HEAD | tar -x -C backup_20240131_235959'' ''/srv/app'' True,
       Run ''git ls-files --others --exclude-standard'' ''/srv/app'' True,
       MakeDirs ''backup_20240131_235959/'',
       IsFile ''notes.txt'',
       Copy2 ''notes.txt'' ''backup_20240131_235959/notes.txt'',
       Print (CHR 0x1B # ''[91m'' @ [CHR 0xE2, CHR 0x9C, CHR 0x97] @
              '' Backup failed: [Errno 13] Permission denied'' @ CHR 0x1B # ''[0m'')])
   \<and> exit_code (fst (main copy_fails [''admin.py'', ''backup''] [])) = 0
   \<and> main compress_fails [''admin.py'', ''backup''] [] =
     (Raise (SystemExit 1),
      [Print (CHR 0x0A # CHR 0x1B # ''[95m'' @ CHR 0x1B # ''[1m'' @
              ''=== Creating Backup ==='' @ CHR 0x1B # ''[0m'' @ [CHR 0x0A]),
       Now,
       Run ''git status --porcelain'' ''/srv/app'' True,
       MakeDirs ''backup_20240131_235959'',
       Run ''git archive HEAD | tar -x -C backup_20240131_235959'' ''/srv/app'' True,
       Run ''git ls-files --others --exclude-standard'' ''/srv/app'' True,
       Run ''tar -czf backup_20240131_235959.tar.gz backup_20240131_235959'' ''/srv/app'' True,
       Print (CHR 0x1B # ''[91m'' @ [CHR 0xE2, CHR 0x9C, CHR 0x97] @
              '' Command failed: tar -czf backup_20240131_235959.tar.gz backup_20240131_235959'' @ CHR 0x1B # ''[0m''),
       Print ''tar: backup_20240131_235959.tar.gz: Cannot write: No space left on device''])
   \<and> exit_code (fst (main compress_fails [''admin.py'', ''backup''] [])) = 1"
proof -
  let ?t2 = "[Print (header_text ''Creating Backup''), Now,
              Run ''git status --porcelain'' ''/srv/app'' True]"
  let ?t6 = "?t2 @ [MakeDirs ''backup_20240131_235959'',
              Run ''git archive HEAD | tar -x -C backup_20240131_235959'' ''/srv/app'' True,
              Run ''git ls-files --others --exclude-standard'' ''/srv/app'' True]"
  have g1: "check_git_status copy_fails (print_header ''Creating Backup'' [] @ [Now])
              = (Return False, ?t2)"
    by (simp add: model_defs copy_fails_def quiet_def)
  have g2: "check_git_status compress_fails (print_header ''Creating Backup'' [] @ [Now])
              = (Return False, ?t2)"
    by (simp add: model_defs compress_fails_def quiet_def)
  note w1 = create_backup_exception_handling
      [OF g1 refl refl refl refl refl refl refl refl refl refl,
        where ?fs0.0 = "[]" and f = "''notes.txt''" and ?fs1.0 = "[]" and ta = ?t6
          and m = "''[Errno 13] Permission denied''"
          and ?out1.0 = "[]" and ?err1.0 = "[]"
          and ?out2.0 = "''notes.txt'' @ [CHR 0x0A]" and ?err2.0 = "[]"
          and prog = "''admin.py''"]
  note w2 = create_backup_exception_handling
      [OF g2 refl refl refl refl refl refl refl refl refl refl,
        where ?t7.0 = ?t6 and out = "[]" and code = 2
          and err = "''tar: backup_20240131_235959.tar.gz: Cannot write: No space left on device''"
          and ?out1.0 = "[]" and ?err1.0 = "[]" and ?out2.0 = "[]" and ?err2.0 = "[]"
          and prog = "''admin.py''"]
  from w1 have A: "main copy_fails [''admin.py'', ''backup''] [] =
     (Return (),
      ?t6 @ [MakeDirs ''backup_20240131_235959/'', IsFile ''notes.txt'',
             Copy2 ''notes.txt'' ''backup_20240131_235959/notes.txt'',
             Print (error_text ''Backup failed: [Errno 13] Permission denied'')])
     \<and> exit_code (fst (main copy_fails [''admin.py'', ''backup''] [])) = 0"
    by (simp add: copy_fails_def quiet_def text_defs print_defs colour_defs)
  from w2 have B: "main compress_fails [''admin.py'', ''backup''] [] =
     (Raise (SystemExit 1),
      ?t6 @ [Run ''tar -czf backup_20240131_235959.tar.gz backup_20240131_235959'' ''/srv/app'' True,
             Print (error_text
               ''Command failed: tar -czf backup_20240131_235959.tar.gz backup_20240131_235959''),
             Print ''tar: backup_20240131_235959.tar.gz: Cannot write: No space left on device''])
     \<and> exit_code (fst (main compress_fails [''admin.py'', ''backup''] [])) = 1"
    by (simp add: compress_fails_def quiet_def text_defs print_defs colour_defs)
  from A B show ?thesis
    by (simp add: colour_defs)
qed

text \<open>
  C6 fails on the code. The backup directory is created inside the working tree, and the
  export fills it before the untracked files are enumerated, so the exported copies are
  themselves listed as untracked and copied once more, one level deeper. In a clean
  repository whose only file is the committed \<open>README.md\<close>, the run succeeds, the archive is
  named after the clock reading and the directory is gone afterwards, but the archive holds
  two members where the tracked and untracked files are one: \<open>README.md\<close> and, in addition,
  \<open>backup_20240131_235959/README.md\<close> (paths relative to the archive's top directory).
\<close>

theorem create_backup_archives_its_own_export:
  "main (backup_world ''20240131_235959'' one_committed_file) [''admin.py'', ''backup''] [] =
     (Return (),
      [Print (CHR 0x0A # CHR 0x1B # ''[95m'' @ CHR 0x1B # ''[1m'' @
              ''=== Creating Backup ==='' @ CHR 0x1B # ''[0m'' @ [CHR 0x0A]),
       Now,
       Run ''git status --porcelain'' ''/srv/app'' True,
       MakeDirs ''backup_20240131_235959'',
       Run ''git archive HEAD | tar -x -C backup_20240131_235959'' ''/srv/app'' True,
       Run ''git ls-files --others --exclude-standard'' ''/srv/app'' True,
       MakeDirs ''backup_20240131_235959/backup_20240131_235959'',
       IsFile ''backup_20240131_235959/README.md'',
       Copy2 ''backup_20240131_235959/README.md''
             ''backup_20240131_235959/backup_20240131_235959/README.md'',
       Run ''tar -czf backup_20240131_235959.tar.gz backup_20240131_235959'' ''/srv/app'' True,
       RmTree ''backup_20240131_235959'',
       Print (CHR 0x1B # ''[92m'' @ [CHR 0xE2, CHR 0x9C, CHR 0x93] @
              '' Backup created: backup_20240131_235959.tar.gz'' @ CHR 0x1B # ''[0m'')])
   \<and> tar_archives (replay one_committed_file (snd (main (backup_world ''20240131_235959'' one_committed_file) [''admin.py'', ''backup''] []))) =
       [(''backup_20240131_235959.tar.gz'',
         [(''backup_20240131_235959/backup_20240131_235959/README.md'', ''hello''),
          (''backup_20240131_235959/README.md'', ''hello'')])]
   \<and> work_files (replay one_committed_file (snd (main (backup_world ''20240131_235959'' one_committed_file) [''admin.py'', ''backup''] []))) =
       [(''README.md'', ''hello'')]
   \<and> work_dirs (replay one_committed_file (snd (main (backup_world ''20240131_235959'' one_committed_file) [''admin.py'', ''backup''] []))) = []
   \<and> extracted ''backup_20240131_235959''
         [(''backup_20240131_235959/backup_20240131_235959/README.md'', ''hello''),
          (''backup_20240131_235959/README.md'', ''hello'')] =
       [(''backup_20240131_235959/README.md'', ''hello''), (''README.md'', ''hello'')]
   \<and> tracked_files one_committed_file = [(''README.md'', ''hello'')]
   \<and> untracked_files one_committed_file = []
   \<and> set (extracted ''backup_20240131_235959''
         [(''backup_20240131_235959/backup_20240131_235959/README.md'', ''hello''),
          (''backup_20240131_235959/README.md'', ''hello'')])
       \<noteq> set (tracked_files one_committed_file) \<union> set (untracked_files one_committed_file)"
proof -
  let ?run = "[Print (CHR 0x0A # CHR 0x1B # ''[95m'' @ CHR 0x1B # ''[1m'' @
                     ''=== Creating Backup ==='' @ CHR 0x1B # ''[0m'' @ [CHR 0x0A]),
       Now,
       Run ''git status --porcelain'' ''/srv/app'' True,
       MakeDirs ''backup_20240131_235959'',
       Run ''git archive HEAD | tar -x -C backup_20240131_235959'' ''/srv/app'' True,
       Run ''git ls-files --others --exclude-standard'' ''/srv/app'' True,
       MakeDirs ''backup_20240131_235959/backup_20240131_235959'',
       IsFile ''backup_20240131_235959/README.md'',
       Copy2 ''backup_20240131_235959/README.md''
             ''backup_20240131_235959/backup_20240131_235959/README.md'',
       Run ''tar -czf backup_20240131_235959.tar.gz backup_20240131_235959'' ''/srv/app'' True,
       RmTree ''backup_20240131_235959'',
       Print (CHR 0x1B # ''[92m'' @ [CHR 0xE2, CHR 0x9C, CHR 0x93] @
                     '' Backup created: backup_20240131_235959.tar.gz'' @ CHR 0x1B # ''[0m'')]"
  have run: "main (backup_world ''20240131_235959'' one_committed_file) [''admin.py'', ''backup''] [] = (Return (), ?run)"
    by code_simp
  have archives: "tar_archives (replay one_committed_file ?run) =
       [(''backup_20240131_235959.tar.gz'',
         [(''backup_20240131_235959/backup_20240131_235959/README.md'', ''hello''),
          (''backup_20240131_235959/README.md'', ''hello'')])]"
    by code_simp
  have files: "work_files (replay one_committed_file ?run) = [(''README.md'', ''hello'')]"
    by code_simp
  have dirs: "work_dirs (replay one_committed_file ?run) = []"
    by code_simp
  have ex: "extracted ''backup_20240131_235959''
         [(''backup_20240131_235959/backup_20240131_235959/README.md'', ''hello''),
          (''backup_20240131_235959/README.md'', ''hello'')] =
       [(''backup_20240131_235959/README.md'', ''hello''), (''README.md'', ''hello'')]"
    by (simp add: extracted_def)
  have tr: "tracked_files one_committed_file = [(''README.md'', ''hello'')]"
    and un: "untracked_files one_committed_file = []"
    by (simp_all add: tracked_files_def untracked_files_def tracked_def one_committed_file_def)
  show ?thesis
    unfolding run snd_conv archives files dirs ex tr un by simp
qed

subsection \<open>Deploy all\<close>



subsection \<open>Dispatch\<close>

text \<open>
  C4. A first argument whose lower-case form is none of the nine command words prints the
  error line naming the command (in the lower-case form that was compared), then the eleven
  lines of the help table, and \<open>main\<close> returns: exit status 0.
\<close>

theorem main_unknown_command:
  assumes "lower e arg \<notin> {''deploy-frontend'', ''deploy-backend'', ''deploy-all'', ''status'',
                            ''update-deps'', ''backup'', ''help'', ''--help'', ''-h''}"
  shows "main e (prog # arg # rest) t =
           (Return (),
            t @ [Print (CHR 0x1B # ''[91m'' @ [CHR 0xE2, CHR 0x9C, CHR 0x97] @
                        '' Unknown command: '' @ lower e arg @ CHR 0x1B # ''[0m''),
                 Print (CHR 0x0A # CHR 0x1B # ''[95m'' @ CHR 0x1B # ''[1m'' @
                        ''=== Resume Improvement Tool Admin Script ==='' @
                        CHR 0x1B # ''[0m'' @ [CHR 0x0A]),
                 Print ''Available commands:'',
                 Print ''  deploy-frontend   - Deploy frontend to GitHub Pages'',
                 Print ''  deploy-backend    - Deploy backend to Heroku'',
                 Print ''  deploy-all        - Deploy both frontend and backend'',
                 Print ''  status            - Check status of deployments'',
                 Print ''  update-deps       - Update npm dependencies'',
                 Print ''  backup            - Create a project backup'',
                 Print ''  help              - Show this help information'',
                 Print (CHR 0x0A # ''Usage: python admin.py [command]'')])
       \<and> exit_code (fst (main e (prog # arg # rest) t)) = 0"
proof -
  have "main e (prog # arg # rest) t =
          (Return (), show_help (print_error (''Unknown command: '' @ lower e arg) t))"
    using assms by (simp add: main_def Let_def)
  then show ?thesis
    by (simp add: show_help_def print_defs colour_defs)
qed

theorem main_unknown_command_witness:
  "main quiet [''admin.py'', ''Deploy''] [] =
     (Return (),
      [Print (CHR 0x1B # ''[91m'' @ [CHR 0xE2, CHR 0x9C, CHR 0x97] @
              '' Unknown command: deploy'' @ CHR 0x1B # ''[0m''),
       Print (CHR 0x0A # CHR 0x1B # ''[95m'' @ CHR 0x1B # ''[1m'' @
              ''=== Resume Improvement Tool Admin Script ==='' @
              CHR 0x1B # ''[0m'' @ [CHR 0x0A]),
       Print ''Available commands:'',
       Print ''  deploy-frontend   - Deploy frontend to GitHub Pages'',
       Print ''  deploy-backend    - Deploy backend to Heroku'',
       Print ''  deploy-all        - Deploy both frontend and backend'',
       Print ''  status            - Check status of deployments'',
       Print ''  update-deps       - Update npm dependencies'',
       Print ''  backup            - Create a project backup'',
       Print ''  help              - Show this help information'',
       Print (CHR 0x0A # ''Usage: python admin.py [command]'')])
   \<and> exit_code (fst (main quiet [''admin.py'', ''Deploy''] [])) = 0"
proof -
  have l: "lower quiet ''Deploy'' = ''deploy''"
    by code_simp
  have h: "lower quiet ''Deploy'' \<notin> {''deploy-frontend'', ''deploy-backend'', ''deploy-all'', ''status'',
                                       ''update-deps'', ''backup'', ''help'', ''--help'', ''-h''}"
    by (simp add: l)
  from main_unknown_command [OF h, where prog = "''admin.py''" and rest = "[]" and t = "[]"]
  show ?thesis
    by (simp add: l)
qed

text \<open>
  C7. With no argument and with the argument \<open>help\<close> the program prints the same bytes,
  the help table, and exits with status 0.
\<close>

theorem main_no_argument_is_help:
  "main e [prog] t = (Return (), show_help t)
   \<and> main e [prog, ''help''] t = (Return (), show_help t)
   \<and> stdout_of (snd (main e [prog] t)) = stdout_of (snd (main e [prog, ''help''] t))
   \<and> exit_code (fst (main e [prog] t)) = 0
   \<and> exit_code (fst (main e [prog, ''help''] t)) = 0"
proof -
  have no_arg: "main e [prog] t = (Return (), show_help t)"
    by (simp add: main_def)
  have "lower e ([prog, ''help''] ! 1) = ''help''"
    by simp
  then have with_help: "main e [prog, ''help''] t = (Return (), show_help t)"
    by (simp add: main_def)
  show ?thesis
    unfolding no_arg with_help by simp
qed

theorem main_no_argument_is_help_witness:
  "main quiet [''admin.py''] [] = (Return (), show_help [])
   \<and> main quiet [''admin.py'', ''help''] [] = (Return (), show_help [])
   \<and> stdout_of (snd (main quiet [''admin.py''] [])) =
       stdout_of (snd (main quiet [''admin.py'', ''help''] []))
   \<and> exit_code (fst (main quiet [''admin.py''] [])) = 0
   \<and> exit_code (fst (main quiet [''admin.py'', ''help''] [])) = 0"
  by (rule main_no_argument_is_help)

subsection \<open>Status check\<close>

text \<open>\<open>str\<close> of a natural number is its decimal numeral: digits only, which read back as it.\<close>

lemma str_nat_digits:
  "str_nat n \<noteq> [] \<and> list_all (\<lambda>ch. 48 \<le> (of_char ch :: nat) \<and> (of_char ch :: nat) \<le> 57) (str_nat n)"
proof (induction n rule: str_nat.induct)
  case (1 n)
  show ?case
  proof (cases "n < 10")
    case True
    then show ?thesis by (subst str_nat.simps, subst (2) str_nat.simps) simp
  next
    case False
    with "1.IH" show ?thesis
      by (subst str_nat.simps, subst (2) str_nat.simps) (simp add: mod_less)
  qed
qed

lemma str_nat_value:
  "foldl (\<lambda>a ch. 10 * a + (int (of_char ch) - 48)) 0 (str_nat n) = int n"
proof (induction n rule: str_nat.induct)
  case (1 n)
  show ?case
  proof (cases "n < 10")
    case True
    then show ?thesis by (subst str_nat.simps) simp
  next
    case False
    with "1.IH" show ?thesis
      by (subst str_nat.simps) (simp add: zdiv_int zmod_int)
  qed
qed

lemma str_int_decimal:
  assumes "0 \<le> n"
  shows "str_int n \<noteq> [] \<and> list_all (\<lambda>ch. 48 \<le> (of_char ch :: nat) \<and> (of_char ch :: nat) \<le> 57) (str_int n)
         \<and> foldl (\<lambda>a ch. 10 * a + (int (of_char ch) - 48)) 0 (str_int n) = n"
  using assms str_nat_digits [of "nat n"] str_nat_value [of "nat n"]
  by (simp add: str_int_def)

lemma check_github_pages_cases:
  "check_github_pages e t =
     t @ [Print (info_text ''Checking GitHub Pages status...''), Get GITHUB_PAGES_URL,
          Print (case requests_get e (print_info ''Checking GitHub Pages status...'' t) GITHUB_PAGES_URL of
                   Response c b \<Rightarrow>
                     if c = 200 then success_text ''GitHub Pages is up and running''
                     else warning_text (''GitHub Pages returned status code: '' @ str_int c)
                 | GetFailed m \<Rightarrow> error_text (''Could not connect to GitHub Pages: '' @ m))]"
  by (simp add: check_github_pages_def Let_def print_def print_info_def print_success_def
        print_warning_def print_error_def split: http_outcome.split)

lemma check_heroku_cases:
  "check_heroku e t =
     t @ [Print (info_text ''Checking Heroku status...''), Get HEROKU_API_HEALTH_URL] @
       (case requests_get e (print_info ''Checking Heroku status...'' t) HEROKU_API_HEALTH_URL of
          Response c b \<Rightarrow>
            if c = 200 then
              Print (success_text ''Heroku API is up and running'') #
                (case b of Some d \<Rightarrow> [Print (info_text (''API Status: '' @ d))] | None \<Rightarrow> [])
            else [Print (warning_text (''Heroku API returned status code: '' @ str_int c))]
        | GetFailed m \<Rightarrow> [Print (error_text (''Could not connect to Heroku API: '' @ m))])"
  by (simp add: check_heroku_def Let_def print_def print_info_def print_success_def
        print_warning_def print_error_def split: http_outcome.split option.split)

lemma check_status_reaches_git:
  "prefix (check_heroku e (check_github_pages e (print_header ''Checking Deployment Status'' t))
             @ [Run ''git status -s'' (project_root e) True])
          (snd (check_status e t))"
  unfolding check_status_def
  by (intro and_then_prefix run_command_first [of _ _ e None, simplified cwd_or_root_def option.case])
     (auto split: prod.split option.split intro!: prints_prefix)

text \<open>
  C5. For each of the two HTTP checks: status 200 prints the success line; another status
  code prints the warning line, which ends with the decimal numeral of the code; a raised
  exception prints the error line, which ends with the exception's text. For the backend, a
  response body that cannot be parsed adds nothing to the output. Neither check raises, and
  \<open>check_status\<close> goes on to the \<open>git status\<close> query after them.
\<close>

theorem check_status_http_checks:
  "(\<forall>b. requests_get e (print_info ''Checking GitHub Pages status...'' t) GITHUB_PAGES_URL
           = Response 200 b \<longrightarrow>
        check_github_pages e t =
          t @ [Print (CHR 0x1B # ''[94m'' @ [CHR 0xE2, CHR 0x84, CHR 0xB9] @
                      '' Checking GitHub Pages status...'' @ CHR 0x1B # ''[0m''),
               Get ''https://HikingHacker.github.io/Resume-Improvement-App'',
               Print (CHR 0x1B # ''[92m'' @ [CHR 0xE2, CHR 0x9C, CHR 0x93] @
                      '' GitHub Pages is up and running'' @ CHR 0x1B # ''[0m'')])
   \<and> (\<forall>c b. requests_get e (print_info ''Checking GitHub Pages status...'' t) GITHUB_PAGES_URL
           = Response c b \<and> c \<noteq> 200 \<longrightarrow>
        check_github_pages e t =
          t @ [Print (CHR 0x1B # ''[94m'' @ [CHR 0xE2, CHR 0x84, CHR 0xB9] @
                      '' Checking GitHub Pages status...'' @ CHR 0x1B # ''[0m''),
               Get ''https://HikingHacker.github.io/Resume-Improvement-App'',
               Print (CHR 0x1B # ''[93m'' @ [CHR 0xE2, CHR 0x9A, CHR 0xA0] @
                      '' GitHub Pages returned status code: '' @ str_int c @ CHR 0x1B # ''[0m'')])
   \<and> (\<forall>m. requests_get e (print_info ''Checking GitHub Pages status...'' t) GITHUB_PAGES_URL
           = GetFailed m \<longrightarrow>
        check_github_pages e t =
          t @ [Print (CHR 0x1B # ''[94m'' @ [CHR 0xE2, CHR 0x84, CHR 0xB9] @
                      '' Checking GitHub Pages status...'' @ CHR 0x1B # ''[0m''),
               Get ''https://HikingHacker.github.io/Resume-Improvement-App'',
               Print (CHR 0x1B # ''[91m'' @ [CHR 0xE2, CHR 0x9C, CHR 0x97] @
                      '' Could not connect to GitHub Pages: '' @ m @ CHR 0x1B # ''[0m'')])
   \<and> (\<forall>d. requests_get e (print_info ''Checking Heroku status...'' t) HEROKU_API_HEALTH_URL
           = Response 200 (Some d) \<longrightarrow>
        check_heroku e t =
          t @ [Print (CHR 0x1B # ''[94m'' @ [CHR 0xE2, CHR 0x84, CHR 0xB9] @
                      '' Checking Heroku status...'' @ CHR 0x1B # ''[0m''),
               Get ''https://resume-improvement-api-b20bfe5902cf.herokuapp.com/api/health'',
               Print (CHR 0x1B # ''[92m'' @ [CHR 0xE2, CHR 0x9C, CHR 0x93] @
                      '' Heroku API is up and running'' @ CHR 0x1B # ''[0m''),
               Print (CHR 0x1B # ''[94m'' @ [CHR 0xE2, CHR 0x84, CHR 0xB9] @
                      '' API Status: '' @ d @ CHR 0x1B # ''[0m'')])
   \<and> (requests_get e (print_info ''Checking Heroku status...'' t) HEROKU_API_HEALTH_URL
           = Response 200 None \<longrightarrow>
        check_heroku e t =
          t @ [Print (CHR 0x1B # ''[94m'' @ [CHR 0xE2, CHR 0x84, CHR 0xB9] @
                      '' Checking Heroku status...'' @ CHR 0x1B # ''[0m''),
               Get ''https://resume-improvement-api-b20bfe5902cf.herokuapp.com/api/health'',
               Print (CHR 0x1B # ''[92m'' @ [CHR 0xE2, CHR 0x9C, CHR 0x93] @
                      '' Heroku API is up and running'' @ CHR 0x1B # ''[0m'')])
   \<and> (\<forall>c b. requests_get e (print_info ''Checking Heroku status...'' t) HEROKU_API_HEALTH_URL
           = Response c b \<and> c \<noteq> 200 \<longrightarrow>
        check_heroku e t =
          t @ [Print (CHR 0x1B # ''[94m'' @ [CHR 0xE2, CHR 0x84, CHR 0xB9] @
                      '' Checking Heroku status...'' @ CHR 0x1B # ''[0m''),
               Get ''https://resume-improvement-api-b20bfe5902cf.herokuapp.com/api/health'',
               Print (CHR 0x1B # ''[93m'' @ [CHR 0xE2, CHR 0x9A, CHR 0xA0] @
                      '' Heroku API returned status code: '' @ str_int c @ CHR 0x1B # ''[0m'')])
   \<and> (\<forall>m. requests_get e (print_info ''Checking Heroku status...'' t) HEROKU_API_HEALTH_URL
           = GetFailed m \<longrightarrow>
        check_heroku e t =
          t @ [Print (CHR 0x1B # ''[94m'' @ [CHR 0xE2, CHR 0x84, CHR 0xB9] @
                      '' Checking Heroku status...'' @ CHR 0x1B # ''[0m''),
               Get ''https://resume-improvement-api-b20bfe5902cf.herokuapp.com/api/health'',
               Print (CHR 0x1B # ''[91m'' @ [CHR 0xE2, CHR 0x9C, CHR 0x97] @
                      '' Could not connect to Heroku API: '' @ m @ CHR 0x1B # ''[0m'')])
   \<and> (\<forall>n. 0 \<le> n \<longrightarrow>
          str_int n \<noteq> [] \<and> list_all (\<lambda>ch. 48 \<le> (of_char ch :: nat) \<and> (of_char ch :: nat) \<le> 57) (str_int n)
          \<and> foldl (\<lambda>a ch. 10 * a + (int (of_char ch) - 48)) 0 (str_int n) = n)
   \<and> prefix (check_heroku e (check_github_pages e (print_header ''Checking Deployment Status'' t))
               @ [Run ''git status -s'' (project_root e) True])
            (snd (check_status e t))"
  by (intro conjI allI impI check_status_reaches_git str_int_decimal)
     (simp_all add: check_github_pages_cases check_heroku_cases colour_defs url_defs)

theorem check_status_http_checks_witness:
  "check_github_pages quiet [] =
          [Print (CHR 0x1B # ''[94m'' @ [CHR 0xE2, CHR 0x84, CHR 0xB9] @
                      '' Checking GitHub Pages status...'' @ CHR 0x1B # ''[0m''),
               Get ''https://HikingHacker.github.io/Resume-Improvement-App'',
               Print (CHR 0x1B # ''[92m'' @ [CHR 0xE2, CHR 0x9C, CHR 0x93] @
                      '' GitHub Pages is up and running'' @ CHR 0x1B # ''[0m'')]
   \<and> check_github_pages pages_500_heroku_down [] =
          [Print (CHR 0x1B # ''[94m'' @ [CHR 0xE2, CHR 0x84, CHR 0xB9] @
                      '' Checking GitHub Pages status...'' @ CHR 0x1B # ''[0m''),
               Get ''https://HikingHacker.github.io/Resume-Improvement-App'',
               Print (CHR 0x1B # ''[93m'' @ [CHR 0xE2, CHR 0x9A, CHR 0xA0] @
                      '' GitHub Pages returned status code: 500'' @ CHR 0x1B # ''[0m'')]
   \<and> check_github_pages pages_down_heroku_503 [] =
          [Print (CHR 0x1B # ''[94m'' @ [CHR 0xE2, CHR 0x84, CHR 0xB9] @
                      '' Checking GitHub Pages status...'' @ CHR 0x1B # ''[0m''),
               Get ''https://HikingHacker.github.io/Resume-Improvement-App'',
               Print (CHR 0x1B # ''[91m'' @ [CHR 0xE2, CHR 0x9C, CHR 0x97] @
                      '' Could not connect to GitHub Pages: Read timed out'' @ CHR 0x1B # ''[0m'')]
   \<and> check_heroku quiet [] =
          [Print (CHR 0x1B # ''[94m'' @ [CHR 0xE2, CHR 0x84, CHR 0xB9] @
                      '' Checking Heroku status...'' @ CHR 0x1B # ''[0m''),
               Get ''https://resume-improvement-api-b20bfe5902cf.herokuapp.com/api/health'',
               Print (CHR 0x1B # ''[92m'' @ [CHR 0xE2, CHR 0x9C, CHR 0x93] @
                      '' Heroku API is up and running'' @ CHR 0x1B # ''[0m''),
               Print (CHR 0x1B # ''[94m'' @ [CHR 0xE2, CHR 0x84, CHR 0xB9] @
                      '' API Status: {}'' @ CHR 0x1B # ''[0m'')]
   \<and> check_heroku heroku_bad_json [] =
          [Print (CHR 0x1B # ''[94m'' @ [CHR 0xE2, CHR 0x84, CHR 0xB9] @
                      '' Checking Heroku status...'' @ CHR 0x1B # ''[0m''),
               Get ''https://resume-improvement-api-b20bfe5902cf.herokuapp.com/api/health'',
               Print (CHR 0x1B # ''[92m'' @ [CHR 0xE2, CHR 0x9C, CHR 0x93] @
                      '' Heroku API is up and running'' @ CHR 0x1B # ''[0m'')]
   \<and> check_heroku pages_down_heroku_503 [] =
          [Print (CHR 0x1B # ''[94m'' @ [CHR 0xE2, CHR 0x84, CHR 0xB9] @
                      '' Checking Heroku status...'' @ CHR 0x1B # ''[0m''),
               Get ''https://resume-improvement-api-b20bfe5902cf.herokuapp.com/api/health'',
               Print (CHR 0x1B # ''[93m'' @ [CHR 0xE2, CHR 0x9A, CHR 0xA0] @
                      '' Heroku API returned status code: 503'' @ CHR 0x1B # ''[0m'')]
   \<and> check_heroku pages_500_heroku_down [] =
          [Print (CHR 0x1B # ''[94m'' @ [CHR 0xE2, CHR 0x84, CHR 0xB9] @
                      '' Checking Heroku status...'' @ CHR 0x1B # ''[0m''),
               Get ''https://resume-improvement-api-b20bfe5902cf.herokuapp.com/api/health'',
               Print (CHR 0x1B # ''[91m'' @ [CHR 0xE2, CHR 0x9C, CHR 0x97] @
                      '' Could not connect to Heroku API: Connection refused'' @ CHR 0x1B # ''[0m'')]
   \<and> prefix
        (check_heroku pages_500_heroku_down
           (check_github_pages pages_500_heroku_down
              (print_header ''Checking Deployment Status'' []))
         @ [Run ''git status -s'' ''/srv/app'' True])
        (snd (check_status pages_500_heroku_down []))"
proof -
  have u: "GITHUB_PAGES_URL \<noteq> HEROKU_API_HEALTH_URL"
    by (simp add: url_defs)
  have s: "str_int 500 = ''500''" "str_int 503 = ''503''"
    by code_simp+
  have r: "project_root pages_500_heroku_down = ''/srv/app''"
    by (simp add: pages_500_heroku_down_def quiet_def)
  from check_status_http_checks [of quiet "[]"]
       check_status_http_checks [of pages_500_heroku_down "[]"]
       check_status_http_checks [of pages_down_heroku_503 "[]"]
       check_status_http_checks [of heroku_bad_json "[]"]
  show ?thesis
    using u
    by (simp add: quiet_def pages_500_heroku_down_def pages_down_heroku_503_def
          heroku_bad_json_def s)
qed

subsection \<open>Deploy backend\<close>

text \<open>
  C8, as stated, fails in one part: the push does not follow the current branch. The command
  is the fixed text \<open>git push heroku main\<close>, which names the local branch \<open>main\<close>; with
  \<open>develop\<close> checked out the same command is run.
\<close>

theorem deploy_backend_pushes_main_on_develop:
  "deploy_backend on_develop [] =
     (Return True,
      [Print (CHR 0x0A # CHR 0x1B # ''[95m'' @ CHR 0x1B # ''[1m'' @
              ''=== Deploying Backend to Heroku ==='' @ CHR 0x1B # ''[0m'' @ [CHR 0x0A]),
       Run ''git status --porcelain'' ''/srv/app'' True,
       Print (CHR 0x1B # ''[94m'' @ [CHR 0xE2, CHR 0x84, CHR 0xB9] @
              '' Deploying to Heroku...'' @ CHR 0x1B # ''[0m''),
       Run ''git push heroku main'' ''/srv/app'' False,
       Print (CHR 0x1B # ''[92m'' @ [CHR 0xE2, CHR 0x9C, CHR 0x93] @
              '' Backend deployed to Heroku'' @ CHR 0x1B # ''[0m''),
       Print (CHR 0x1B # ''[94m'' @ [CHR 0xE2, CHR 0x84, CHR 0xB9] @
              '' Backend API URL: https://resume-improvement-api-b20bfe5902cf.herokuapp.com'' @ CHR 0x1B # ''[0m'')])
   \<and> pushed_branch ''git push heroku main'' = Some ''main''
   \<and> current_branch on_develop [] = Some ''develop''
   \<and> pushed_branch ''git push heroku main'' \<noteq> current_branch on_develop []"
  by (simp add: model_defs colour_defs url_defs on_develop_def quiet_def pushed_branch_def
        current_branch_def)

text \<open>
  C8 (amended). When the stage-and-commit step has returned, the backend deploy runs
  \<open>git push heroku main\<close> with \<open>check\<close> unset: it pushes the local branch \<open>main\<close> to the
  branch \<open>main\<close> of the deployment remote, whichever branch is checked out. A non-zero exit
  code prints the error line and the standard error and returns \<open>False\<close>; exit code 0 prints
  the success line and the line with the backend URL and returns \<open>True\<close>.
\<close>

theorem deploy_backend_push_contract:
  assumes "deploy_backend_commit e (print_header ''Deploying Backend to Heroku'' t) = (Return (), t1)"
      and "spawn e (t1 @ [Print (info_text ''Deploying to Heroku...'')])
             ''git push heroku main'' (project_root e) = Exited out err code"
  shows "deploy_backend e t =
           (if code \<noteq> 0
            then (Return False,
                  t1 @ [Print (CHR 0x1B # ''[94m'' @ [CHR 0xE2, CHR 0x84, CHR 0xB9] @
                                '' Deploying to Heroku...'' @ CHR 0x1B # ''[0m''),
                        Run ''git push heroku main'' (project_root e) False,
                        Print (CHR 0x1B # ''[91m'' @ [CHR 0xE2, CHR 0x9C, CHR 0x97] @
                                '' Heroku deployment failed:'' @ CHR 0x1B # ''[0m''),
                        Print (strip e err)])
            else (Return True,
                  t1 @ [Print (CHR 0x1B # ''[94m'' @ [CHR 0xE2, CHR 0x84, CHR 0xB9] @
                                '' Deploying to Heroku...'' @ CHR 0x1B # ''[0m''),
                        Run ''git push heroku main'' (project_root e) False,
                        Print (CHR 0x1B # ''[92m'' @ [CHR 0xE2, CHR 0x9C, CHR 0x93] @
                                '' Backend deployed to Heroku'' @ CHR 0x1B # ''[0m''),
                        Print (CHR 0x1B # ''[94m'' @ [CHR 0xE2, CHR 0x84, CHR 0xB9] @
                                '' Backend API URL: https://resume-improvement-api-b20bfe5902cf.herokuapp.com'' @ CHR 0x1B # ''[0m'')]))
       \<and> pushed_branch ''git push heroku main'' = Some ''main''"
proof -
  have b: "pushed_branch ''git push heroku main'' = Some ''main''"
    by (simp add: pushed_branch_def)
  have i: "print_info ''Deploying to Heroku...'' t1 = t1 @ [Print (info_text ''Deploying to Heroku...'')]"
    by (simp add: print_defs)
  have "deploy_backend e t = deploy_backend_push e t1"
    using assms(1) by (simp add: deploy_backend_def)
  also have "\<dots> =
      (if code \<noteq> 0
       then (Return False,
             print (strip e err)
               (print_error ''Heroku deployment failed:''
                 (t1 @ [Print (info_text ''Deploying to Heroku...''),
                        Run ''git push heroku main'' (project_root e) False])))
       else (Return True,
             print_info (''Backend API URL: '' @ HEROKU_URL)
               (print_success ''Backend deployed to Heroku''
                 (t1 @ [Print (info_text ''Deploying to Heroku...''),
                        Run ''git push heroku main'' (project_root e) False]))))"
    using assms(2)
    by (simp add: deploy_backend_push_def run_command_def subprocess_run_def cwd_or_root_def
          Let_def i HEROKU_REMOTE_def)
  finally show ?thesis
    using b by (simp add: print_defs colour_defs url_defs)
qed

theorem deploy_backend_push_contract_witness:
  "deploy_backend push_rejected [] =
     (Return False,
      [Print (CHR 0x0A # CHR 0x1B # ''[95m'' @ CHR 0x1B # ''[1m'' @
              ''=== Deploying Backend to Heroku ==='' @ CHR 0x1B # ''[0m'' @ [CHR 0x0A]),
       Run ''git status --porcelain'' ''/srv/app'' True,
       Print (CHR 0x1B # ''[94m'' @ [CHR 0xE2, CHR 0x84, CHR 0xB9] @
              '' Deploying to Heroku...'' @ CHR 0x1B # ''[0m''),
       Run ''git push heroku main'' ''/srv/app'' False,
       Print (CHR 0x1B # ''[91m'' @ [CHR 0xE2, CHR 0x9C, CHR 0x97] @
              '' Heroku deployment failed:'' @ CHR 0x1B # ''[0m''),
       Print ''! [rejected] main -> main''])
   \<and> pushed_branch ''git push heroku main'' = Some ''main''"
proof -
  let ?t1 = "[Print (header_text ''Deploying Backend to Heroku''),
              Run ''git status --porcelain'' ''/srv/app'' True]"
  have c: "deploy_backend_commit push_rejected (print_header ''Deploying Backend to Heroku'' [])
             = (Return (), ?t1)"
    by (simp add: model_defs push_rejected_def quiet_def)
  have s: "spawn push_rejected (?t1 @ [Print (info_text ''Deploying to Heroku...'')])
             ''git push heroku main'' (project_root push_rejected)
           = Exited [] ''! [rejected] main -> main'' 1"
    by (simp add: push_rejected_def quiet_def)
  from deploy_backend_push_contract [OF c s] show ?thesis
    by (simp add: push_rejected_def quiet_def strip_def isspace_def is_ascii_def colour_defs)
qed

text \<open>
  C9. With uncommitted changes, the answer \<open>y\<close> and a commit message: \<open>git add .\<close> and
  \<open>git commit\<close> run with \<open>check\<close> set, and a non-zero exit code of either ends
  \<open>deploy_backend\<close> with \<open>SystemExit 1\<close> instead of a returned \<open>False\<close>; the program
  exits with status 1.
\<close>

theorem deploy_backend_commit_is_strict:
  assumes "check_git_status e (print_header ''Deploying Backend to Heroku'' t) = (Return True, t1)"
      and "input e ''Do you want to commit them before deployment? (y/n): ''
             (print_warning ''There are uncommitted changes in the repository.'' t1)
           = (Return response, t2)"
      and "lower e response = ''y''"
      and "input e ''Enter commit message: '' t2 = (Return commit_msg, t3)"
  shows "(\<forall>out err code.
            spawn e t3 ''git add .'' (project_root e) = Exited out err code \<and> code \<noteq> 0 \<longrightarrow>
            deploy_backend e t =
              (Raise (SystemExit 1),
               t3 @ [Run ''git add .'' (project_root e) True,
                     Print (error_text ''Command failed: git add .''), Print err])
            \<and> exit_code (fst (main e [prog, ''deploy-backend''] t)) = 1)
       \<and> (\<forall>out err out' err' code.
            spawn e t3 ''git add .'' (project_root e) = Exited out err 0
            \<and> spawn e (t3 @ [Run ''git add .'' (project_root e) True])
                 (''git commit -m '' @ [CHR 0x22] @ commit_msg @ [CHR 0x22]) (project_root e)
               = Exited out' err' code
            \<and> code \<noteq> 0 \<longrightarrow>
            deploy_backend e t =
              (Raise (SystemExit 1),
               t3 @ [Run ''git add .'' (project_root e) True,
                     Run (''git commit -m '' @ [CHR 0x22] @ commit_msg @ [CHR 0x22]) (project_root e) True,
                     Print (error_text
                       (''Command failed: '' @ ''git commit -m '' @ [CHR 0x22] @ commit_msg @ [CHR 0x22])),
                     Print err'])
            \<and> exit_code (fst (main e [prog, ''deploy-backend''] t)) = 1)"
proof -
  have c: "deploy_backend e t =
      and_then
        (and_then (run_command e ''git add .'' None True t3) (\<lambda>_ t4.
           and_then
             (run_command e (''git commit -m '' @ [CHR 0x22] @ commit_msg @ [CHR 0x22]) None True t4)
             (\<lambda>_ t5. (Return (), print_success ''Changes committed'' t5))))
        (\<lambda>_ t1. deploy_backend_push e t1)"
    using assms by (simp add: deploy_backend_def deploy_backend_commit_def)
  have m: "main e [prog, ''deploy-backend''] t = and_then (deploy_backend e t) (\<lambda>_ t1. (Return (), t1))"
    by (simp add: main_def lower_def lower_char_def is_ascii_def Let_def)
  show ?thesis
  proof (intro conjI allI impI)
    fix out err code
    assume a: "spawn e t3 ''git add .'' (project_root e) = Exited out err code \<and> code \<noteq> 0"
    then have "run_command e ''git add .'' None True t3 =
        (Raise (SystemExit 1),
         t3 @ [Run ''git add .'' (project_root e) True,
               Print (error_text ''Command failed: git add .''), Print err])"
      using run_command_strict_failure [of e t3 "''git add .''" out err code] by simp
    then show d: "deploy_backend e t =
        (Raise (SystemExit 1),
         t3 @ [Run ''git add .'' (project_root e) True,
               Print (error_text ''Command failed: git add .''), Print err])"
      unfolding c by simp
    show "exit_code (fst (main e [prog, ''deploy-backend''] t)) = 1"
      unfolding m d by simp
  next
    fix out err out' err' code
    assume a: "spawn e t3 ''git add .'' (project_root e) = Exited out err 0
            \<and> spawn e (t3 @ [Run ''git add .'' (project_root e) True])
                 (''git commit -m '' @ [CHR 0x22] @ commit_msg @ [CHR 0x22]) (project_root e)
               = Exited out' err' code
            \<and> code \<noteq> 0"
    have 1: "run_command e ''git add .'' None True t3 =
        (Return (Some (strip e out), strip e err, 0), t3 @ [Run ''git add .'' (project_root e) True])"
      using a by (intro run_command_success) simp
    have 2: "run_command e (''git commit -m '' @ [CHR 0x22] @ commit_msg @ [CHR 0x22]) None True
               (t3 @ [Run ''git add .'' (project_root e) True]) =
        (Raise (SystemExit 1),
         (t3 @ [Run ''git add .'' (project_root e) True]) @
           [Run (''git commit -m '' @ [CHR 0x22] @ commit_msg @ [CHR 0x22]) (project_root e) True,
            Print (error_text
              (''Command failed: '' @ ''git commit -m '' @ [CHR 0x22] @ commit_msg @ [CHR 0x22])),
            Print err'])"
      using a by (intro run_command_strict_failure [where code = code]) simp_all
    show d: "deploy_backend e t =
        (Raise (SystemExit 1),
         t3 @ [Run ''git add .'' (project_root e) True,
               Run (''git commit -m '' @ [CHR 0x22] @ commit_msg @ [CHR 0x22]) (project_root e) True,
               Print (error_text
                 (''Command failed: '' @ ''git commit -m '' @ [CHR 0x22] @ commit_msg @ [CHR 0x22])),
               Print err'])"
      unfolding c 1 using 2 by simp
    show "exit_code (fst (main e [prog, ''deploy-backend''] t)) = 1"
      unfolding m d by simp
  qed
qed

theorem deploy_backend_commit_is_strict_witness:
  "deploy_backend dirty_add_fails [] =
     (Raise (SystemExit 1),
      [Print (header_text ''Deploying Backend to Heroku''),
       Run ''git status --porcelain'' ''/srv/app'' True,
       Print (warning_text ''There are uncommitted changes in the repository.''),
       Input ''Do you want to commit them before deployment? (y/n): '',
       Input ''Enter commit message: '',
       Run ''git add .'' ''/srv/app'' True,
       Print (error_text ''Command failed: git add .''),
       Print ''fatal: Unable to create index.lock''])
   \<and> exit_code (fst (main dirty_add_fails [''admin.py'', ''deploy-backend''] [])) = 1
   \<and> deploy_backend dirty_commit_fails [] =
     (Raise (SystemExit 1),
      [Print (header_text ''Deploying Backend to Heroku''),
       Run ''git status --porcelain'' ''/srv/app'' True,
       Print (warning_text ''There are uncommitted changes in the repository.''),
       Input ''Do you want to commit them before deployment? (y/n): '',
       Input ''Enter commit message: '',
       Run ''git add .'' ''/srv/app'' True,
       Run (''git commit -m '' @ [CHR 0x22] @ ''wip'' @ [CHR 0x22]) ''/srv/app'' True,
       Print (error_text (''Command failed: git commit -m '' @ [CHR 0x22] @ ''wip'' @ [CHR 0x22])),
       Print ''error: gpg failed to sign the data''])
   \<and> exit_code (fst (main dirty_commit_fails [''admin.py'', ''deploy-backend''] [])) = 1"
proof -
  let ?t1 = "[Print (header_text ''Deploying Backend to Heroku''),
              Run ''git status --porcelain'' ''/srv/app'' True]"
  let ?t2 = "?t1 @ [Print (warning_text ''There are uncommitted changes in the repository.''),
                    Input ''Do you want to commit them before deployment? (y/n): '']"
  let ?t3 = "?t2 @ [Input ''Enter commit message: '']"
  have "char_of (121::nat) = CHR ''y''"
    by code_simp
  then have y: "lower e0 ''Y'' = ''y''" for e0
    by (simp add: lower_def lower_char_def is_ascii_def)
  have a1: "check_git_status dirty_add_fails (print_header ''Deploying Backend to Heroku'' [])
              = (Return True, ?t1)"
    by (simp add: model_defs dirty_add_fails_def quiet_def)
  have a2: "input dirty_add_fails ''Do you want to commit them before deployment? (y/n): ''
              (print_warning ''There are uncommitted changes in the repository.'' ?t1)
            = (Return ''Y'', ?t2)"
    by (simp add: input_def print_defs dirty_add_fails_def quiet_def)
  have a3: "input dirty_add_fails ''Enter commit message: '' ?t2 = (Return ''wip'', ?t3)"
    by (simp add: input_def dirty_add_fails_def quiet_def)
  have a4: "spawn dirty_add_fails ?t3 ''git add .'' (project_root dirty_add_fails)
              = Exited [] ''fatal: Unable to create index.lock'' 128"
    by (simp add: dirty_add_fails_def quiet_def)
  have b1: "check_git_status dirty_commit_fails (print_header ''Deploying Backend to Heroku'' [])
              = (Return True, ?t1)"
    by (simp add: model_defs dirty_commit_fails_def quiet_def)
  have b2: "input dirty_commit_fails ''Do you want to commit them before deployment? (y/n): ''
              (print_warning ''There are uncommitted changes in the repository.'' ?t1)
            = (Return ''Y'', ?t2)"
    by (simp add: input_def print_defs dirty_commit_fails_def quiet_def)
  have b3: "input dirty_commit_fails ''Enter commit message: '' ?t2 = (Return ''wip'', ?t3)"
    by (simp add: input_def dirty_commit_fails_def quiet_def)
  have b4: "spawn dirty_commit_fails ?t3 ''git add .'' (project_root dirty_commit_fails)
              = Exited [] [] 0"
    by (simp add: dirty_commit_fails_def quiet_def)
  have b5: "spawn dirty_commit_fails (?t3 @ [Run ''git add .'' (project_root dirty_commit_fails) True])
              (''git commit -m '' @ [CHR 0x22] @ ''wip'' @ [CHR 0x22])
              (project_root dirty_commit_fails)
            = Exited [] ''error: gpg failed to sign the data'' 128"
    by (simp add: dirty_commit_fails_def quiet_def)
  have ra: "project_root dirty_add_fails = ''/srv/app''"
    by (simp add: dirty_add_fails_def quiet_def)
  have rb: "project_root dirty_commit_fails = ''/srv/app''"
    by (simp add: dirty_commit_fails_def quiet_def)
  from deploy_backend_commit_is_strict [OF a1 a2 y a3, of "''admin.py''"] a4
  have A: "deploy_backend dirty_add_fails [] =
        (Raise (SystemExit 1),
         ?t3 @ [Run ''git add .'' ''/srv/app'' True,
                Print (error_text ''Command failed: git add .''),
                Print ''fatal: Unable to create index.lock''])
      \<and> exit_code (fst (main dirty_add_fails [''admin.py'', ''deploy-backend''] [])) = 1"
    by (simp add: ra)
  from deploy_backend_commit_is_strict [OF b1 b2 y b3, of "''admin.py''"] b4 b5
  have B: "deploy_backend dirty_commit_fails [] =
        (Raise (SystemExit 1),
         ?t3 @ [Run ''git add .'' ''/srv/app'' True,
                Run (''git commit -m '' @ [CHR 0x22] @ ''wip'' @ [CHR 0x22]) ''/srv/app'' True,
                Print (error_text (''Command failed: git commit -m '' @ [CHR 0x22] @ ''wip'' @ [CHR 0x22])),
                Print ''error: gpg failed to sign the data''])
      \<and> exit_code (fst (main dirty_commit_fails [''admin.py'', ''deploy-backend''] [])) = 1"
    by (simp add: rb)
  from A B show ?thesis by simp
qed

text \<open>
  C10. With uncommitted changes and an answer other than \<open>y\<close> (in any case), the backend
  deploy goes straight from the prompt to the push: nothing is staged or committed, and
  \<open>git push heroku main\<close> is run.
\<close>

theorem deploy_backend_declined_commit_still_pushes:
  assumes "check_git_status e (print_header ''Deploying Backend to Heroku'' t) = (Return True, t1)"
      and "input e ''Do you want to commit them before deployment? (y/n): ''
             (print_warning ''There are uncommitted changes in the repository.'' t1)
           = (Return response, t2)"
      and "lower e response \<noteq> ''y''"
  shows "deploy_backend e t = deploy_backend_push e t2
       \<and> prefix (t2 @ [Print (info_text ''Deploying to Heroku...''),
                       Run (''git push '' @ HEROKU_REMOTE @ '' main'') (project_root e) False])
                (snd (deploy_backend e t))"
proof -
  have eq: "deploy_backend e t = deploy_backend_push e t2"
    using assms by (simp add: deploy_backend_def deploy_backend_commit_def)
  have "prefix ((t2 @ [Print (info_text ''Deploying to Heroku...'')])
                @ [Run (''git push '' @ HEROKU_REMOTE @ '' main'') (cwd_or_root e None) False])
               (snd (deploy_backend_push e t2))"
    unfolding deploy_backend_push_def print_info_def print_def
    by (intro and_then_prefix run_command_first)
       (auto split: prod.split intro!: prints_prefix simp: print_info_def [symmetric] print_def [symmetric])
  with eq show ?thesis by (simp add: cwd_or_root_def)
qed

theorem deploy_backend_declined_commit_still_pushes_witness:
  "deploy_backend dirty_declined [] =
     deploy_backend_push dirty_declined
       [Print (header_text ''Deploying Backend to Heroku''),
        Run ''git status --porcelain'' ''/srv/app'' True,
        Print (warning_text ''There are uncommitted changes in the repository.''),
        Input ''Do you want to commit them before deployment? (y/n): '']
   \<and> prefix
        [Print (header_text ''Deploying Backend to Heroku''),
         Run ''git status --porcelain'' ''/srv/app'' True,
         Print (warning_text ''There are uncommitted changes in the repository.''),
         Input ''Do you want to commit them before deployment? (y/n): '',
         Print (info_text ''Deploying to Heroku...''),
         Run ''git push heroku main'' ''/srv/app'' False]
        (snd (deploy_backend dirty_declined []))"
proof -
  let ?t1 = "[Print (header_text ''Deploying Backend to Heroku''),
              Run ''git status --porcelain'' ''/srv/app'' True]"
  let ?t2 = "?t1 @ [Print (warning_text ''There are uncommitted changes in the repository.''),
                    Input ''Do you want to commit them before deployment? (y/n): '']"
  have n: "lower dirty_declined ''n'' \<noteq> ''y''"
    by (simp add: lower_def lower_char_def is_ascii_def)
  have h1: "check_git_status dirty_declined (print_header ''Deploying Backend to Heroku'' [])
              = (Return True, ?t1)"
    by (simp add: model_defs dirty_declined_def quiet_def)
  have h2: "input dirty_declined ''Do you want to commit them before deployment? (y/n): ''
              (print_warning ''There are uncommitted changes in the repository.'' ?t1)
            = (Return ''n'', ?t2)"
    by (simp add: input_def print_defs dirty_declined_def quiet_def)
  have r: "project_root dirty_declined = ''/srv/app''"
    by (simp add: dirty_declined_def quiet_def)
  note w = deploy_backend_declined_commit_still_pushes [OF h1 h2 n]
  from w [THEN conjunct1] have A: "deploy_backend dirty_declined [] =
      deploy_backend_push dirty_declined ?t2"
    by simp
  from w [THEN conjunct2] have B: "prefix
      (?t2 @ [Print (info_text ''Deploying to Heroku...''),
              Run ''git push heroku main'' ''/srv/app'' False])
      (snd (deploy_backend dirty_declined []))"
    by (simp add: r HEROKU_REMOTE_def)
  from A B show ?thesis
    by (simp del: prefix_code)
qed

end
